theory Spec2Isabelle
  imports Main "HOL-Library.Sublist" "HOL-Library.Char_ord"
begin

section \<open>Strings\<close>

text \<open>
  A Go string is a sequence of bytes, and so is a HOL \<^typ>\<open>string\<close>: \<open>len\<close> is
  \<^const>\<open>length\<close> and a slice \<open>s[:n]\<close> is \<^term>\<open>take n s\<close>. The functions of package
  \<open>strings\<close> that the program calls are written out below. Two of them decode UTF-8 once
  they meet a byte outside ASCII; that part of the Go library is not written out but taken
  as a parameter (record \<open>unicode\<close>), so every theorem holds whatever it computes.
\<close>

record unicode =
  Map_ToLower :: "string \<Rightarrow> string"
    \<comment> \<open>\<open>strings.Map(unicode.ToLower, s)\<close>, called on strings with a non-ASCII byte\<close>
  TrimFunc_IsSpace :: "string \<Rightarrow> string"
    \<comment> \<open>\<open>strings.TrimFunc(s, unicode.IsSpace)\<close>\<close>
  TrimRightFunc_IsSpace :: "string \<Rightarrow> string"
    \<comment> \<open>\<open>strings.TrimRightFunc(s, unicode.IsSpace)\<close>\<close>

definition newline :: char where
  "newline = CHR 0x0A"

definition RuneSelf :: "char \<Rightarrow> bool" where
  \<comment> \<open>\<open>c >= utf8.RuneSelf\<close>: the byte is not ASCII\<close>
  "RuneSelf c = ((128::nat) \<le> of_char c)"

definition isUpper :: "char \<Rightarrow> bool" where
  "isUpper c = (CHR ''A'' \<le> c \<and> c \<le> CHR ''Z'')"

definition lowerASCII :: "char \<Rightarrow> char" where
  \<comment> \<open>\<open>c += 'a' - 'A'\<close> on the bytes \<open>'A'\<close> .. \<open>'Z'\<close>\<close>
  "lowerASCII c = (if isUpper c then char_of (of_char c + (32::nat)) else c)"

definition ToLower :: "unicode \<Rightarrow> string \<Rightarrow> string" where
  "ToLower U s =
     (if \<exists>c \<in> set s. RuneSelf c then Map_ToLower U s
      else if \<not> (\<exists>c \<in> set s. isUpper c) then s
      else map lowerASCII s)"

definition asciiSpace :: "char \<Rightarrow> bool" where
  \<comment> \<open>the table \<open>asciiSpace\<close>: tab, newline, vertical tab, form feed, carriage return, space\<close>
  "asciiSpace c = (c \<in> {CHR 0x09, CHR 0x0A, CHR 0x0B, CHR 0x0C, CHR 0x0D, CHR 0x20})"

definition TrimSpace :: "unicode \<Rightarrow> string \<Rightarrow> string" where
  \<comment> \<open>the first loop skips leading ASCII white space and hands over to the Unicode
      functions at a non-ASCII byte; the second loop does the same from the end\<close>
  "TrimSpace U s =
     (case dropWhile asciiSpace s of
        [] \<Rightarrow> []
      | c # cs \<Rightarrow>
          if RuneSelf c then TrimFunc_IsSpace U (c # cs)
          else (let t = rev (dropWhile asciiSpace (rev (c # cs)))
                in if RuneSelf (last t) then TrimRightFunc_IsSpace U t else t))"

definition HasPrefix :: "string \<Rightarrow> string \<Rightarrow> bool" where
  "HasPrefix s p = (length p \<le> length s \<and> take (length p) s = p)"

definition HasSuffix :: "string \<Rightarrow> string \<Rightarrow> bool" where
  "HasSuffix s suf = (length suf \<le> length s \<and> drop (length s - length suf) s = suf)"

definition TrimPrefix :: "string \<Rightarrow> string \<Rightarrow> string" where
  "TrimPrefix s p = (if HasPrefix s p then drop (length p) s else s)"

definition TrimSuffix :: "string \<Rightarrow> string \<Rightarrow> string" where
  "TrimSuffix s suf = (if HasSuffix s suf then take (length s - length suf) s else s)"

definition ReplaceAll :: "string \<Rightarrow> char \<Rightarrow> char \<Rightarrow> string" where
  \<comment> \<open>\<open>strings.ReplaceAll(s, old, new)\<close> for one-byte \<open>old\<close> and \<open>new\<close>, the only use made of it\<close>
  "ReplaceAll s old new = map (\<lambda>c. if c = old then new else c) s"

fun Split :: "string \<Rightarrow> char \<Rightarrow> string list" where
  \<comment> \<open>\<open>strings.Split(s, sep)\<close> for a one-byte separator; the result is never empty\<close>
  "Split [] sep = [[]]"
| "Split (c # cs) sep =
     (if c = sep then [] # Split cs sep
      else (case Split cs sep of
              [] \<Rightarrow> [[c]]
            | l # ls \<Rightarrow> (c # l) # ls))"

fun Contains :: "string \<Rightarrow> string \<Rightarrow> bool" where
  \<comment> \<open>\<open>strings.Contains(s, substr)\<close>: \<open>substr\<close> occurs at some offset of \<open>s\<close>\<close>
  "Contains [] substr = (substr = [])"
| "Contains (c # cs) substr = (HasPrefix (c # cs) substr \<or> Contains cs substr)"

section \<open>Errors\<close>

text \<open>
  The program builds its errors with \<open>fmt.Errorf\<close>. There is one constructor for each
  format string; an argument of type \<open>error\<close> is the error wrapped by \<open>%w\<close>, and
  \<open>Foreign\<close> is an error made outside the program (operating system, prompt library,
  remote client). \<open>RuntimePanic\<close> is not a returned error: it stands for the run-time
  panic of an index out of range or a nil dereference, which ends the process.
  \<open>Error\<close> is the message.
\<close>

datatype error =
    Foreign string
  | PromptsDirNotFoundAt string
  | ReadPromptsDirFailed error
  | NoPromptsFoundIn string
  | PromptNotFound string
  | InboxNotFoundAt string
  | ScanInboxFailed error
  | ReadFileFailed string error
  | StdinPipeFailed error
  | StartFailed error
  | WritePromptFailed error
  | ExecutionFailed error string
  | NoResponse
  | NoProviderConfigured
  | PromptsDirNotFound
  | NoPromptsFound
  | PromptSelectionFailed error
  | ReadPromptFileFailed error
  | InputPromptFailed error
  | ExecuteClaudeFailed error
  | ExecuteOpenRouterFailed error
  | CreateDirFailed error
  | WriteFileFailed error
  | ReadStdinFailed error
  | ReadContextFilesFailed error
  | NoFilesInInbox
  | ClaudeCodeNotAvailable
  | OpenRouterNotImplemented
  | RuntimePanic string

fun Error :: "error \<Rightarrow> string" where
  "Error (Foreign m) = m"
| "Error (PromptsDirNotFoundAt p) = ''prompt templates directory not found at: '' @ p"
| "Error (ReadPromptsDirFailed e) = ''failed to read prompts directory: '' @ Error e"
| "Error (NoPromptsFoundIn p) = ''no prompt templates found in: '' @ p"
| "Error (PromptNotFound n) = ''prompt not found: '' @ n"
| "Error (InboxNotFoundAt p) = ''inbox directory not found at: '' @ p"
| "Error (ScanInboxFailed e) = ''failed to scan inbox: '' @ Error e"
| "Error (ReadFileFailed p e) = ''failed to read file '' @ p @ '': '' @ Error e"
| "Error (StdinPipeFailed e) = ''failed to create stdin pipe: '' @ Error e"
| "Error (StartFailed e) =
     ''failed to start claude code: '' @ Error e @ '' (is Claude Code installed?)''"
| "Error (WritePromptFailed e) = ''failed to write prompt: '' @ Error e"
| "Error (ExecutionFailed e err) =
     ''claude code execution failed: '' @ Error e @ [newline] @ ''Stderr: '' @ err"
| "Error NoResponse = ''no response from Claude Code''"
| "Error NoProviderConfigured = ''no AI provider configured''"
| "Error PromptsDirNotFound = ''prompt templates directory not found''"
| "Error NoPromptsFound = ''no prompt templates found''"
| "Error (PromptSelectionFailed e) = ''prompt selection failed: '' @ Error e"
| "Error (ReadPromptFileFailed e) = ''failed to read prompt file: '' @ Error e"
| "Error (InputPromptFailed e) = ''input prompt failed: '' @ Error e"
| "Error (ExecuteClaudeFailed e) = ''failed to execute prompt with Claude Code: '' @ Error e"
| "Error (ExecuteOpenRouterFailed e) = ''failed to execute prompt with OpenRouter: '' @ Error e"
| "Error (CreateDirFailed e) = ''failed to create directory: '' @ Error e"
| "Error (WriteFileFailed e) = ''failed to write file: '' @ Error e"
| "Error (ReadStdinFailed e) = ''failed to read stdin: '' @ Error e"
| "Error (ReadContextFilesFailed e) = ''failed to read context files: '' @ Error e"
| "Error NoFilesInInbox = ''no files found in inbox''"
| "Error ClaudeCodeNotAvailable = ''Claude Code not available''"
| "Error OpenRouterNotImplemented =
     ''OpenRouter integration not yet implemented for run command''"
| "Error (RuntimePanic m) = ''panic: '' @ m"

text \<open>
  The specification sorts the errors into kinds (its section on error handling): a missing
  directory, a missing template and an empty listing are \<open>NotFound\<close>; a failed read, write
  or walk is \<open>IOError\<close>. The program itself has no such type, so the kinds of the template
  store and of the context formatter, which the theorems below name, are given here as
  predicates on the constructors.
\<close>

fun NotFound :: "error \<Rightarrow> bool" where
  "NotFound (PromptsDirNotFoundAt p) = True"
| "NotFound (NoPromptsFoundIn p) = True"
| "NotFound (PromptNotFound n) = True"
| "NotFound e = False"

fun IOError :: "error \<Rightarrow> bool" where
  "IOError (ReadPromptsDirFailed e) = True"
| "IOError (ReadFileFailed p e) = True"
| "IOError e = False"

section \<open>The file system\<close>

record DirEntry =
  entry_Name :: string
  entry_IsDir :: bool

record FileStat =
  stat_Name :: string
  stat_IsDir :: bool
  stat_Size :: int
  stat_ModTime :: string
    \<comment> \<open>\<open>info.ModTime().Format("2006-01-02 15:04")\<close>\<close>

text \<open>
  What the program asks of the operating system and of package \<open>path/filepath\<close>. A failed
  call returns the system's error (\<open>Inl\<close>, or \<open>Some\<close> where there is no other result).
  \<open>Walk\<close> lists the visits that \<open>filepath.Walk\<close> makes as long as the callback returns
  \<open>nil\<close>: the path, and the file information or the error handed to the callback.
\<close>

record filesystem =
  Join :: "string list \<Rightarrow> string"
    \<comment> \<open>\<open>filepath.Join\<close>\<close>
  Base :: "string \<Rightarrow> string"
    \<comment> \<open>\<open>filepath.Base\<close>\<close>
  Dir :: "string \<Rightarrow> string"
    \<comment> \<open>\<open>filepath.Dir\<close>\<close>
  Rel :: "string \<Rightarrow> string \<Rightarrow> error + string"
    \<comment> \<open>\<open>filepath.Rel\<close>\<close>
  Stat_IsNotExist :: "string \<Rightarrow> bool"
    \<comment> \<open>\<open>os.IsNotExist(err)\<close> for the \<open>err\<close> of \<open>os.Stat(path)\<close>\<close>
  ReadDir :: "string \<Rightarrow> error + DirEntry list"
  ReadFile :: "string \<Rightarrow> error + string"
  Walk :: "string \<Rightarrow> (string \<times> (error + FileStat)) list"
  MkdirAll :: "string \<Rightarrow> error option"
  WriteFile :: "string \<Rightarrow> string \<Rightarrow> error option"

definition os_WriteFile :: "filesystem \<Rightarrow> string \<Rightarrow> string \<Rightarrow> error option \<times> filesystem" where
  \<comment> \<open>\<open>os.WriteFile\<close>: after a write that succeeds the file holds the data\<close>
  "os_WriteFile F path data =
     (case WriteFile F path data of
        Some err \<Rightarrow> (Some err, F)
      | None \<Rightarrow> (None, F\<lparr>ReadFile := (ReadFile F)(path := Inr data)\<rparr>))"

section \<open>The template store\<close>

record PromptInfo =
  Name :: string
  FileName :: string
  Path :: string
  Description :: string

fun ListPrompts_loop ::
  "unicode \<Rightarrow> filesystem \<Rightarrow> string \<Rightarrow> DirEntry list \<Rightarrow> PromptInfo list \<Rightarrow> PromptInfo list"
where
  "ListPrompts_loop U F promptsPath [] prompts = prompts"
| "ListPrompts_loop U F promptsPath (entry # entries) prompts =
     (if entry_IsDir entry \<or> \<not> HasSuffix (entry_Name entry) ''.md''
      then ListPrompts_loop U F promptsPath entries prompts
      else
        let fullPath = Join F [promptsPath, entry_Name entry];
            name = TrimSuffix (entry_Name entry) ''.md'';
            name = ReplaceAll name (CHR ''_'') (CHR '' '');
            description =
              (case ReadFile F fullPath of
                 Inl err \<Rightarrow> ''''
               | Inr content \<Rightarrow>
                   (let lines = Split content newline
                    in if 0 < length lines
                       then (let description = TrimSpace U (TrimPrefix (lines ! 0) ''#'')
                             in if 60 < length description
                                then take 60 description @ ''...''
                                else description)
                       else ''''))
        in ListPrompts_loop U F promptsPath entries
             (prompts @ [\<lparr>Name = name, FileName = entry_Name entry,
                          Path = fullPath, Description = description\<rparr>]))"

definition ListPrompts :: "unicode \<Rightarrow> filesystem \<Rightarrow> string \<Rightarrow> error + PromptInfo list" where
  "ListPrompts U F projectRoot =
     (let promptsPath = Join F [projectRoot, ''10_PromptTemplates'']
      in if Stat_IsNotExist F promptsPath then Inl (PromptsDirNotFoundAt promptsPath)
         else (case ReadDir F promptsPath of
                 Inl err \<Rightarrow> Inl (ReadPromptsDirFailed err)
               | Inr entries \<Rightarrow>
                   (let prompts = ListPrompts_loop U F promptsPath entries []
                    in if length prompts = 0 then Inl (NoPromptsFoundIn promptsPath)
                       else Inr prompts)))"

fun FindPrompt_exact :: "unicode \<Rightarrow> string \<Rightarrow> PromptInfo list \<Rightarrow> PromptInfo option" where
  "FindPrompt_exact U searchTerm [] = None"
| "FindPrompt_exact U searchTerm (prompt # prompts) =
     (if ToLower U (Name prompt) = searchTerm then Some prompt
      else if ToLower U (TrimSuffix (FileName prompt) ''.md'') = searchTerm then Some prompt
      else FindPrompt_exact U searchTerm prompts)"

fun FindPrompt_partial :: "unicode \<Rightarrow> string \<Rightarrow> PromptInfo list \<Rightarrow> PromptInfo option" where
  "FindPrompt_partial U searchTerm [] = None"
| "FindPrompt_partial U searchTerm (prompt # prompts) =
     (if Contains (ToLower U (Name prompt)) searchTerm then Some prompt
      else FindPrompt_partial U searchTerm prompts)"

definition FindPrompt :: "unicode \<Rightarrow> filesystem \<Rightarrow> string \<Rightarrow> string \<Rightarrow> error + PromptInfo" where
  "FindPrompt U F projectRoot promptName =
     (case ListPrompts U F projectRoot of
        Inl err \<Rightarrow> Inl err
      | Inr prompts \<Rightarrow>
          (let searchTerm = ToLower U (TrimSpace U promptName)
           in case FindPrompt_exact U searchTerm prompts of
                Some prompt \<Rightarrow> Inr prompt
              | None \<Rightarrow>
                  (case FindPrompt_partial U searchTerm prompts of
                     Some prompt \<Rightarrow> Inr prompt
                   | None \<Rightarrow> Inl (PromptNotFound promptName))))"

section \<open>File discovery\<close>

record FileInfo =
  file_Path :: string
  file_RelativePath :: string
  file_Name :: string
  file_Size :: int
  file_ModTime :: string

fun DiscoverFiles_walk ::
  "filesystem \<Rightarrow> string \<Rightarrow> (string \<times> (error + FileStat)) list \<Rightarrow> FileInfo list \<Rightarrow>
   error + FileInfo list"
where
  "DiscoverFiles_walk F projectRoot [] files = Inr files"
| "DiscoverFiles_walk F projectRoot ((path, Inl err) # visits) files = Inl err"
| "DiscoverFiles_walk F projectRoot ((path, Inr info) # visits) files =
     (if stat_IsDir info then DiscoverFiles_walk F projectRoot visits files
      else
        let relPath = (case Rel F projectRoot path of Inl err \<Rightarrow> path | Inr relPath \<Rightarrow> relPath)
        in DiscoverFiles_walk F projectRoot visits
             (files @ [\<lparr>file_Path = path, file_RelativePath = relPath,
                        file_Name = stat_Name info, file_Size = stat_Size info,
                        file_ModTime = stat_ModTime info\<rparr>]))"

definition DiscoverFiles :: "filesystem \<Rightarrow> string \<Rightarrow> error + FileInfo list" where
  "DiscoverFiles F projectRoot =
     (let inboxPath = Join F [projectRoot, ''00_Inbox'']
      in if Stat_IsNotExist F inboxPath then Inl (InboxNotFoundAt inboxPath)
         else (case DiscoverFiles_walk F projectRoot (Walk F inboxPath) [] of
                 Inl err \<Rightarrow> Inl (ScanInboxFailed err)
               | Inr files \<Rightarrow> Inr files))"

section \<open>The context formatter\<close>

text \<open>
  A Go function of type \<open>(string, error)\<close> returns a pair; \<open>None\<close> is the \<open>nil\<close> error.
  The loop of \<open>FormatFileContext\<close> carries, besides the builder, the paths it has handed to
  \<open>os.ReadFile\<close> so far, in order: what the function read is part of what it did.
\<close>

definition ReadFileContent :: "filesystem \<Rightarrow> string \<Rightarrow> string \<times> error option" where
  "ReadFileContent F filePath =
     (case ReadFile F filePath of
        Inl err \<Rightarrow> ([], Some (ReadFileFailed filePath err))
      | Inr content \<Rightarrow> (content, None))"

fun FormatFileContext_loop ::
  "filesystem \<Rightarrow> string list \<Rightarrow> string \<Rightarrow> string list \<Rightarrow> (string \<times> error option) \<times> string list"
where
  "FormatFileContext_loop F [] builder reads = ((builder, None), reads)"
| "FormatFileContext_loop F (filePath # files) builder reads =
     (case ReadFileContent F filePath of
        (content, Some err) \<Rightarrow> (([], Some err), reads @ [filePath])
      | (content, None) \<Rightarrow>
          FormatFileContext_loop F files
            (builder @ (''=== File: '' @ Base F filePath @ '' ==='' @ [newline, newline])
                     @ content @ [newline, newline])
            (reads @ [filePath]))"

definition FormatFileContext_reads ::
  "filesystem \<Rightarrow> string list \<Rightarrow> (string \<times> error option) \<times> string list" where
  "FormatFileContext_reads F files =
     FormatFileContext_loop F files (''Context Files:'' @ [newline, newline]) []"

definition FormatFileContext :: "filesystem \<Rightarrow> string list \<Rightarrow> string \<times> error option" where
  "FormatFileContext F files = fst (FormatFileContext_reads F files)"

section \<open>The local-process backend\<close>

text \<open>
  The subprocess \<open>claude code --stdio\<close> as the client sees it: whether the pipe and the
  start succeed, and, for the text written to its standard input, whether the write and the
  wait succeed and what the two output buffers hold afterwards.
\<close>

record subprocess =
  cmd_StdinPipe :: "error option"
  cmd_Start :: "error option"
  stdin_WriteString :: "string \<Rightarrow> error option"
  cmd_Wait :: "string \<Rightarrow> error option"
  stdout :: "string \<Rightarrow> string"
  stderr :: "string \<Rightarrow> string"

definition ExecutePrompt_stdin ::
  "unicode \<Rightarrow> subprocess \<Rightarrow> string \<Rightarrow> string \<Rightarrow> (string \<times> error option) \<times> string list" where
  \<comment> \<open>the second component lists what the subprocess has received on its standard input\<close>
  "ExecutePrompt_stdin U P promptContent userInput =
     (let fullPrompt = promptContent @ [newline, newline] @ ''User Request:'' @ [newline] @ userInput
      in case cmd_StdinPipe P of
           Some err \<Rightarrow> (([], Some (StdinPipeFailed err)), [])
         | None \<Rightarrow>
        (case cmd_Start P of
           Some err \<Rightarrow> (([], Some (StartFailed err)), [])
         | None \<Rightarrow>
        (case stdin_WriteString P fullPrompt of
           Some err \<Rightarrow> (([], Some (WritePromptFailed err)), [])
         | None \<Rightarrow>
        (case cmd_Wait P fullPrompt of
           Some err \<Rightarrow> (([], Some (ExecutionFailed err (stderr P fullPrompt))), [fullPrompt])
         | None \<Rightarrow>
        (let response = stdout P fullPrompt
         in if response = [] then (([], Some NoResponse), [fullPrompt])
            else ((TrimSpace U response, None), [fullPrompt]))))))"

definition ExecutePrompt ::
  "unicode \<Rightarrow> subprocess \<Rightarrow> string \<Rightarrow> string \<Rightarrow> string \<times> error option" where
  "ExecutePrompt U P promptContent userInput = fst (ExecutePrompt_stdin U P promptContent userInput)"

section \<open>The commands\<close>

text \<open>
  What a run of a command meets besides the file system: the environment, the two
  backends, the clock, the standard input, the answers of the user to each menu and prompt
  of package \<open>promptui\<close> (\<open>Inl\<close> when the user cancels or declines), and the flags of the
  \<open>run\<close> command. The remote client is not part of the sources at hand and is a parameter.
\<close>

record session =
  Getenv :: "string \<Rightarrow> string"
  claude_IsAvailable :: bool
  claude :: subprocess
  openrouter_ExecutePrompt :: "string \<Rightarrow> string \<Rightarrow> string \<Rightarrow> string \<times> error option"
    \<comment> \<open>\<open>openrouter.NewClient(apiKey).ExecutePrompt(promptContent, userInput)\<close>\<close>
  Now_date :: string
    \<comment> \<open>\<open>time.Now().Format("2006-01-02")\<close>\<close>
  Now_stamp :: string
    \<comment> \<open>\<open>time.Now().Format("2006-01-02 15:04:05")\<close>\<close>
  Stdin_CharDevice :: "error + bool"
    \<comment> \<open>\<open>os.Stdin.Stat()\<close>, and whether the mode has \<open>os.ModeCharDevice\<close>\<close>
  Stdin_ReadAll :: "error + string"
  Select_template :: "string list \<Rightarrow> error + nat"
  Prompt_input :: "error + string"
  Prompt_save :: "error + string"
  Select_location :: "error + nat"
  Prompt_custom :: "error + string"
  Prompt_filename :: "string \<Rightarrow> error + string"
    \<comment> \<open>the answer may depend on the default offered\<close>
  Select_file :: "FileInfo list \<Rightarrow> error + nat"
    \<comment> \<open>the answer may depend on the files offered\<close>
  inputFiles :: "string list"
  useClaudeCode :: bool
  discoverFiles :: bool
  saveOutput :: bool
  outputPath :: string

text \<open>
  What a run leaves behind: the error returned, the calls made to a backend (template body
  and input), and the file system.
\<close>

record outcome =
  returned :: "error option"
  executed :: "(string \<times> string) list"
  disk :: filesystem

definition choose_savePath :: "session \<Rightarrow> nat \<Rightarrow> string option" where
  \<comment> \<open>the \<open>switch locIdx\<close> of both save dialogues; \<open>None\<close> when the prompt for a custom path
      is cancelled, and the empty path for an index the switch has no case for\<close>
  "choose_savePath S locIdx =
     (if locIdx = 0 then Some ''99_Assets/Project_Overview''
      else if locIdx = 1 then Some ''99_Assets/Communications''
      else if locIdx = 2 then Some ''99_Assets/POC_Documents''
      else if locIdx = 3 then Some ''00_Inbox/notes''
      else if locIdx = 4 then
        (case Prompt_custom S of Inl err \<Rightarrow> None | Inr customPath \<Rightarrow> Some customPath)
      else Some [])"

subsection \<open>The interactive session\<close>

definition runPrompt_outputContent ::
  "session \<Rightarrow> string \<Rightarrow> string \<Rightarrow> string \<Rightarrow> string \<Rightarrow> string" where
  "runPrompt_outputContent S filename selectedPrompt userInput result =
     ''# '' @ ReplaceAll filename (CHR ''_'') (CHR '' '') @ [newline, newline] @
     ''**Date:** '' @ Now_stamp S @ [newline] @
     ''**Prompt Template:** '' @ selectedPrompt @ [newline] @
     ''**Model:** '' @ ''google/gemini-2.0-flash-exp:free'' @ [newline, newline] @
     ''## User Input'' @ [newline, newline] @
     userInput @ [newline, newline] @
     ''## Response'' @ [newline, newline] @
     result @ [newline]"

definition runPrompt_save ::
  "filesystem \<Rightarrow> session \<Rightarrow> string \<Rightarrow> string \<Rightarrow> string \<Rightarrow> error option \<times> filesystem" where
  \<comment> \<open>\<open>runPrompt\<close> from the question whether to save the output\<close>
  "runPrompt_save F S selectedPrompt userInput result =
     (case Prompt_save S of
        Inl err \<Rightarrow> (None, F)
      | Inr yes \<Rightarrow>
     (case Select_location S of
        Inl err \<Rightarrow> (None, F)
      | Inr locIdx \<Rightarrow>
     (case choose_savePath S locIdx of
        None \<Rightarrow> (None, F)
      | Some savePath \<Rightarrow>
     (let defaultFilename = TrimSuffix selectedPrompt ''.md'' @ ''_'' @ Now_date S
      in case Prompt_filename S defaultFilename of
           Inl err \<Rightarrow> (None, F)
         | Inr filename \<Rightarrow>
        (let outputContent = runPrompt_outputContent S filename selectedPrompt userInput result;
             fullPath = Join F [''.'', savePath, filename @ ''.md'']
         in case MkdirAll F (Dir F fullPath) of
              Some err \<Rightarrow> (Some (CreateDirFailed err), F)
            | None \<Rightarrow>
           (case os_WriteFile F fullPath outputContent of
              (Some err, F') \<Rightarrow> (Some (WriteFileFailed err), F')
            | (None, F') \<Rightarrow> (None, F')))))))"

definition runPrompt_gather ::
  "filesystem \<Rightarrow> session \<Rightarrow> error + (bool \<times> string \<times> string \<times> string \<times> string)" where
  \<comment> \<open>\<open>runPrompt\<close> up to the call of a backend: the provider chosen, the key, the file
      selected, its content and the input of the user\<close>
  "runPrompt_gather F S =
     (let apiKey = Getenv S ''OPENROUTER_API_KEY'';
          hasClaudeCode = claude_IsAvailable S
      in if apiKey = [] \<and> \<not> hasClaudeCode then Inl NoProviderConfigured
         else
          let useClaude = hasClaudeCode;
              useClaude = (if apiKey \<noteq> [] \<and> \<not> hasClaudeCode then False else useClaude);
              promptsPath = Join F [''.'', ''10_PromptTemplates'']
          in if Stat_IsNotExist F promptsPath then Inl PromptsDirNotFound
             else
              (case ReadDir F promptsPath of
                 Inl err \<Rightarrow> Inl (ReadPromptsDirFailed err)
               | Inr entries \<Rightarrow>
              (let promptFiles =
                     map entry_Name
                       (filter (\<lambda>entry. \<not> entry_IsDir entry \<and> HasSuffix (entry_Name entry) ''.md'')
                          entries)
               in if length promptFiles = 0 then Inl NoPromptsFound
                  else
                   let templates =
                         map (\<lambda>file. TrimSuffix (ReplaceAll file (CHR ''_'') (CHR '' '')) ''.md'')
                           promptFiles
                   in (case Select_template S templates of
                         Inl err \<Rightarrow> Inl (PromptSelectionFailed err)
                       | Inr idx \<Rightarrow>
                      if \<not> idx < length promptFiles
                      then Inl (RuntimePanic ''index out of range'')
                      else
                       let selectedPrompt = promptFiles ! idx
                       in (case ReadFile F (Join F [promptsPath, selectedPrompt]) of
                             Inl err \<Rightarrow> Inl (ReadPromptFileFailed err)
                           | Inr promptContent \<Rightarrow>
                          (case Prompt_input S of
                             Inl err \<Rightarrow> Inl (InputPromptFailed err)
                           | Inr userInput \<Rightarrow>
                               Inr (useClaude, apiKey, selectedPrompt,
                                    promptContent, userInput)))))))"

definition runPrompt_backend ::
  "unicode \<Rightarrow> session \<Rightarrow> bool \<Rightarrow> string \<Rightarrow> string \<Rightarrow> string \<Rightarrow> error + string" where
  \<comment> \<open>the call of the backend chosen, with the error wrapped as \<open>runPrompt\<close> wraps it\<close>
  "runPrompt_backend U S useClaude apiKey promptContent userInput =
     (if useClaude
      then (case ExecutePrompt U (claude S) promptContent userInput of
              (result, Some err) \<Rightarrow> Inl (ExecuteClaudeFailed err)
            | (result, None) \<Rightarrow> Inr result)
      else (case openrouter_ExecutePrompt S apiKey promptContent userInput of
              (result, Some err) \<Rightarrow> Inl (ExecuteOpenRouterFailed err)
            | (result, None) \<Rightarrow> Inr result))"

definition runPrompt :: "unicode \<Rightarrow> filesystem \<Rightarrow> session \<Rightarrow> outcome" where
  "runPrompt U F S =
     (case runPrompt_gather F S of
        Inl err \<Rightarrow> \<lparr>returned = Some err, executed = [], disk = F\<rparr>
      | Inr (useClaude, apiKey, selectedPrompt, promptContent, userInput) \<Rightarrow>
          (case runPrompt_backend U S useClaude apiKey promptContent userInput of
             Inl err \<Rightarrow>
               \<lparr>returned = Some err, executed = [(promptContent, userInput)], disk = F\<rparr>
           | Inr result \<Rightarrow>
               (case runPrompt_save F S selectedPrompt userInput result of
                  (err, F') \<Rightarrow>
                    \<lparr>returned = err, executed = [(promptContent, userInput)], disk = F'\<rparr>)))"

subsection \<open>The run command\<close>

definition discoverAndSelectFiles :: "filesystem \<Rightarrow> session \<Rightarrow> string \<Rightarrow> error + string list" where
  "discoverAndSelectFiles F S projectRoot =
     (case DiscoverFiles F projectRoot of
        Inl err \<Rightarrow> Inl err
      | Inr files \<Rightarrow>
          if length files = 0 then Inl NoFilesInInbox
          else (case Select_file S files of
                  Inl err \<Rightarrow> Inl err
                | Inr idx \<Rightarrow>
                    if \<not> idx < length files then Inl (RuntimePanic ''index out of range'')
                    else Inr [file_Path (files ! idx)]))"

definition savePromptOutput_content :: "session \<Rightarrow> string \<Rightarrow> string \<Rightarrow> string \<Rightarrow> string" where
  "savePromptOutput_content S promptName input response =
     ''# '' @ promptName @ [newline, newline] @
     ''**Date:** '' @ Now_stamp S @ [newline] @
     ''**Prompt:** '' @ promptName @ [newline, newline] @
     ''## Input'' @ [newline, newline] @
     input @ [newline, newline] @
     ''## Response'' @ [newline, newline] @
     response @ [newline]"

definition savePromptOutput ::
  "filesystem \<Rightarrow> session \<Rightarrow> string \<Rightarrow> string \<Rightarrow> string \<Rightarrow> string \<Rightarrow> string \<Rightarrow>
   error option \<times> filesystem" where
  "savePromptOutput F S projectRoot promptName input response outPath =
     (let outputContent = savePromptOutput_content S promptName input response;
          dir = Dir F outPath
      in case MkdirAll F dir of
           Some err \<Rightarrow> (Some (CreateDirFailed err), F)
         | None \<Rightarrow>
        (case os_WriteFile F outPath outputContent of
           (Some err, F') \<Rightarrow> (Some (WriteFileFailed err), F')
         | (None, F') \<Rightarrow> (None, F')))"

definition savePromptOutputInteractive ::
  "filesystem \<Rightarrow> session \<Rightarrow> string \<Rightarrow> string \<Rightarrow> string \<Rightarrow> string \<Rightarrow> error option \<times> filesystem" where
  "savePromptOutputInteractive F S projectRoot promptName input response =
     (case Select_location S of
        Inl err \<Rightarrow> (None, F)
      | Inr locIdx \<Rightarrow>
     (case choose_savePath S locIdx of
        None \<Rightarrow> (None, F)
      | Some savePath \<Rightarrow>
     (let defaultFilename = ReplaceAll promptName (CHR '' '') (CHR ''_'') @ ''_'' @ Now_date S
      in case Prompt_filename S defaultFilename of
           Inl err \<Rightarrow> (None, F)
         | Inr filename \<Rightarrow>
        (let fullPath = Join F [projectRoot, savePath, filename @ ''.md'']
         in savePromptOutput F S projectRoot promptName input response fullPath))))"

definition runPromptRun_files :: "filesystem \<Rightarrow> session \<Rightarrow> string \<Rightarrow> error + string list" where
  \<comment> \<open>the value of \<open>inputFiles\<close> after the discovery step: a failed or cancelled discovery
      is a warning and leaves the list as the flags gave it\<close>
  "runPromptRun_files F S projectRoot =
     (if discoverFiles S
      then (case discoverAndSelectFiles F S projectRoot of
              Inl (RuntimePanic m) \<Rightarrow> Inl (RuntimePanic m)
            | Inl err \<Rightarrow> Inr (inputFiles S)
            | Inr selectedFiles \<Rightarrow>
                if 0 < length selectedFiles then Inr (inputFiles S @ selectedFiles)
                else Inr (inputFiles S))
      else Inr (inputFiles S))"

definition runPromptRun_gather ::
  "unicode \<Rightarrow> filesystem \<Rightarrow> session \<Rightarrow> string \<Rightarrow> error + (PromptInfo \<times> string \<times> string)" where
  \<comment> \<open>\<open>runPromptRun\<close> up to the choice of a backend: the template found, its content and
      the full input\<close>
  "runPromptRun_gather U F S promptName =
     (let projectRoot = ''.''
      in case FindPrompt U F projectRoot promptName of
           Inl err \<Rightarrow> Inl err
         | Inr prompt \<Rightarrow>
        (case ReadFile F (Path prompt) of
           Inl err \<Rightarrow> Inl (ReadPromptFileFailed err)
         | Inr promptContent \<Rightarrow>
        (case Stdin_CharDevice S of
           Inl err \<Rightarrow> Inl (RuntimePanic ''nil pointer dereference'')
         | Inr charDevice \<Rightarrow>
        (case (if \<not> charDevice
               then (case Stdin_ReadAll S of
                       Inl err \<Rightarrow> Inl (ReadStdinFailed err)
                     | Inr data \<Rightarrow> Inr data)
               else Inr []) of
           Inl err \<Rightarrow> Inl err
         | Inr userInput \<Rightarrow>
        (case runPromptRun_files F S projectRoot of
           Inl err \<Rightarrow> Inl err
         | Inr inputFiles' \<Rightarrow>
        (case (if 0 < length inputFiles'
               then (case FormatFileContext F inputFiles' of
                       (fileContext, Some err) \<Rightarrow> Inl (ReadContextFilesFailed err)
                     | (fileContext, None) \<Rightarrow> Inr fileContext)
               else Inr []) of
           Inl err \<Rightarrow> Inl err
         | Inr fileContext \<Rightarrow>
        (case (if userInput = [] \<and> fileContext = []
               then (case Prompt_input S of
                       Inl err \<Rightarrow> Inl (InputPromptFailed err)
                     | Inr userInput \<Rightarrow> Inr userInput)
               else Inr userInput) of
           Inl err \<Rightarrow> Inl err
         | Inr userInput \<Rightarrow>
        (let fullInput = fileContext;
             fullInput =
               (if userInput \<noteq> []
                then (if fullInput \<noteq> []
                      then fullInput @ [newline, newline] @ ''User Input:'' @ [newline]
                      else fullInput) @ userInput
                else fullInput)
         in Inr (prompt, promptContent, fullInput)))))))))"

definition runPromptRun_save ::
  "filesystem \<Rightarrow> session \<Rightarrow> string \<Rightarrow> string \<Rightarrow> string \<Rightarrow> string \<Rightarrow> error option \<times> filesystem" where
  \<comment> \<open>\<open>runPromptRun\<close> from the handling of the output\<close>
  "runPromptRun_save F S projectRoot promptName fullInput result =
     (if outputPath S \<noteq> []
      then savePromptOutput F S projectRoot promptName fullInput result (outputPath S)
      else if saveOutput S
      then (case Prompt_save S of
              Inl err \<Rightarrow> (None, F)
            | Inr yes \<Rightarrow>
                savePromptOutputInteractive F S projectRoot promptName fullInput result)
      else (None, F))"

definition runPromptRun :: "unicode \<Rightarrow> filesystem \<Rightarrow> session \<Rightarrow> string \<Rightarrow> outcome" where
  "runPromptRun U F S promptName =
     (let projectRoot = ''.''
      in case runPromptRun_gather U F S promptName of
           Inl err \<Rightarrow> \<lparr>returned = Some err, executed = [], disk = F\<rparr>
         | Inr (prompt, promptContent, fullInput) \<Rightarrow>
             if useClaudeCode S then
               if \<not> claude_IsAvailable S
               then \<lparr>returned = Some ClaudeCodeNotAvailable, executed = [], disk = F\<rparr>
               else
                (case ExecutePrompt U (claude S) promptContent fullInput of
                   (result, Some err) \<Rightarrow>
                     \<lparr>returned = Some (ExecuteClaudeFailed err),
                      executed = [(promptContent, fullInput)], disk = F\<rparr>
                 | (result, None) \<Rightarrow>
                     (case runPromptRun_save F S projectRoot (Name prompt) fullInput result of
                        (err, F') \<Rightarrow>
                          \<lparr>returned = err, executed = [(promptContent, fullInput)], disk = F'\<rparr>))
             else \<lparr>returned = Some OpenRouterNotImplemented, executed = [], disk = F\<rparr>)"

section \<open>Concrete runs\<close>

text \<open>
  The file systems, subprocesses and sessions on which the theorems below are tried.
  \<open>example_Join\<close>, \<open>example_Base\<close> and \<open>example_Dir\<close> agree with package
  \<open>path/filepath\<close> on the relative, already clean paths that occur in them. On ASCII
  strings the Unicode part of the library is never asked (\<open>ascii_only\<close>); \<open>plain_text\<close>
  is that part on text without white space at its ends and without capital letters, which
  the library returns as it is.
\<close>

definition ascii_only :: unicode where
  "ascii_only = \<lparr>Map_ToLower = (\<lambda>s. s), TrimFunc_IsSpace = (\<lambda>s. s),
                  TrimRightFunc_IsSpace = (\<lambda>s. s)\<rparr>"

definition example_Join :: "string list \<Rightarrow> string" where
  "example_Join elems =
     (case filter (\<lambda>e. e \<noteq> [] \<and> e \<noteq> ''.'') elems of
        [] \<Rightarrow> ''.''
      | e # es \<Rightarrow> foldl (\<lambda>a b. a @ ''/'' @ b) e es)"

definition example_Base :: "string \<Rightarrow> string" where
  "example_Base p = rev (takeWhile (\<lambda>c. c \<noteq> CHR ''/'') (rev p))"

definition example_Dir :: "string \<Rightarrow> string" where
  "example_Dir p =
     (if CHR ''/'' \<in> set p then rev (tl (dropWhile (\<lambda>c. c \<noteq> CHR ''/'') (rev p))) else ''.'')"

definition no_such_file :: error where
  "no_such_file = Foreign ''no such file or directory''"

definition permission_denied :: error where
  "permission_denied = Foreign ''permission denied''"

definition templates_fs :: "DirEntry list \<Rightarrow> (string \<Rightarrow> error + string) \<Rightarrow> filesystem" where
  \<comment> \<open>a project whose template directory lists \<open>entries\<close> and whose files read as \<open>content\<close> says\<close>
  "templates_fs entries content =
     \<lparr>Join = example_Join, Base = example_Base, Dir = example_Dir,
      Rel = (\<lambda>base target. Inr target),
      Stat_IsNotExist = (\<lambda>p. False),
      ReadDir = (\<lambda>p. if p = ''10_PromptTemplates'' then Inr entries else Inl no_such_file),
      ReadFile = content,
      Walk = (\<lambda>p. []),
      MkdirAll = (\<lambda>p. None),
      WriteFile = (\<lambda>p data. None)\<rparr>"

definition plain_file :: "string \<Rightarrow> DirEntry" where
  "plain_file n = \<lparr>entry_Name = n, entry_IsDir = False\<rparr>"

definition directory :: "string \<Rightarrow> DirEntry" where
  "directory n = \<lparr>entry_Name = n, entry_IsDir = True\<rparr>"

definition missing_fs :: filesystem where
  \<comment> \<open>no template directory\<close>
  "missing_fs = (templates_fs [] (\<lambda>p. Inl no_such_file))\<lparr>Stat_IsNotExist := (\<lambda>p. True)\<rparr>"

definition unreadable_fs :: filesystem where
  \<comment> \<open>a template directory that cannot be listed\<close>
  "unreadable_fs =
     (templates_fs [] (\<lambda>p. Inl no_such_file))\<lparr>ReadDir := (\<lambda>p. Inl permission_denied)\<rparr>"

definition notes_only_fs :: filesystem where
  \<comment> \<open>a template directory with a text file and a directory whose name ends in \<open>.md\<close>\<close>
  "notes_only_fs =
     templates_fs [directory ''drafts.md'', plain_file ''notes.txt''] (\<lambda>p. Inl no_such_file)"

definition sales_content :: string where
  "sales_content = ''# Discover Needs'' @ [newline] @ ''Ask about goals.'' @ [newline]"

definition scenario_fs :: filesystem where
  \<comment> \<open>the scenario of the specification: \<open>Sales_Discovery.md\<close> and \<open>notes.txt\<close>\<close>
  "scenario_fs =
     templates_fs [plain_file ''Sales_Discovery.md'', plain_file ''notes.txt'']
       (\<lambda>p. if p = ''10_PromptTemplates/Sales_Discovery.md'' then Inr sales_content
            else if p = ''notes/a.txt'' then Inr ''alpha''
            else if p = ''notes/b.txt'' then Inr ''beta''
            else Inl no_such_file)"

definition agenda_content :: string where
  "agenda_content =
     ''# Agenda and talking points for the first workshop with the platform team'' @ [newline]"

definition agenda_fs :: filesystem where
  \<comment> \<open>one template whose heading has 71 bytes\<close>
  "agenda_fs =
     templates_fs [plain_file ''Agenda.md'']
       (\<lambda>p. if p = ''10_PromptTemplates/Agenda.md'' then Inr agenda_content
            else Inl no_such_file)"

definition collision_fs :: filesystem where
  \<comment> \<open>the name of the second template is part of the name of the first\<close>
  "collision_fs =
     templates_fs [plain_file ''Pre_Sales.md'', plain_file ''Sales.md''] (\<lambda>p. Inl no_such_file)"

definition trailing_fs :: filesystem where
  \<comment> \<open>the display name of the second template ends with a space\<close>
  "trailing_fs =
     templates_fs [plain_file ''Pre_Sales.md'', plain_file ''Sales_.md''] (\<lambda>p. Inl no_such_file)"

definition dotmd_fs :: filesystem where
  \<comment> \<open>a template file whose whole name is the extension\<close>
  "dotmd_fs =
     templates_fs [plain_file ''-a.md'', plain_file ''.md''] (\<lambda>p. Inl no_such_file)"

definition plain_text :: unicode where
  "plain_text = \<lparr>Map_ToLower = (\<lambda>s. s), TrimFunc_IsSpace = (\<lambda>s. s),
                  TrimRightFunc_IsSpace = (\<lambda>s. s)\<rparr>"

definition e_acute :: string where
  \<comment> \<open>the letter e with an acute accent, two bytes in UTF-8\<close>
  "e_acute = [CHR 0xC3, CHR 0xA9]"

definition ten_e :: string where
  "ten_e = e_acute @ e_acute @ e_acute @ e_acute @ e_acute @
           e_acute @ e_acute @ e_acute @ e_acute @ e_acute"

definition menu_content :: string where
  \<comment> \<open>a heading of the letter \<open>a\<close> and forty accented letters: 41 characters, 81 bytes\<close>
  "menu_content = ''# a'' @ ten_e @ ten_e @ ten_e @ ten_e @ [newline]"

definition menu_fs :: filesystem where
  "menu_fs =
     templates_fs [plain_file ''Menu.md'']
       (\<lambda>p. if p = ''10_PromptTemplates/Menu.md'' then Inr menu_content
            else Inl no_such_file)"

definition RuneCountInString :: "string \<Rightarrow> nat" where
  \<comment> \<open>\<open>utf8.RuneCountInString\<close> on valid UTF-8, the number of characters: the bytes that
      do not continue a character (\<open>10xxxxxx\<close>)\<close>
  "RuneCountInString s =
     length (filter (\<lambda>c. \<not> ((128::nat) \<le> of_char c \<and> of_char c < (192::nat))) s)"

section \<open>Invariants\<close>

definition described :: "unicode \<Rightarrow> filesystem \<Rightarrow> PromptInfo \<Rightarrow> bool" where
  \<comment> \<open>the description of a listed template is the one its file gives\<close>
  "described U F p =
     (case ReadFile F (Path p) of
        Inl err \<Rightarrow> Description p = []
      | Inr content \<Rightarrow>
          (let d = TrimSpace U (TrimPrefix (hd (Split content newline)) ''#'')
           in Description p = (if 60 < length d then take 60 d @ ''...'' else d)))"

definition answering :: "string \<Rightarrow> subprocess" where
  \<comment> \<open>an assistant that starts, reads its input, prints \<open>out\<close> and exits with status 0\<close>
  "answering out =
     \<lparr>cmd_StdinPipe = None, cmd_Start = None,
      stdin_WriteString = (\<lambda>s. None), cmd_Wait = (\<lambda>s. None),
      stdout = (\<lambda>s. out), stderr = (\<lambda>s. [])\<rparr>"

definition broken_pipe :: error where
  "broken_pipe = Foreign ''write |1: broken pipe''"

definition exit_status_1 :: error where
  "exit_status_1 = Foreign ''exit status 1''"

definition hangs_up :: subprocess where
  \<comment> \<open>an assistant that closes its standard input at once and would print a greeting\<close>
  "hangs_up = (answering ''Hello'')\<lparr>stdin_WriteString := (\<lambda>s. Some broken_pipe)\<rparr>"

definition crashes :: subprocess where
  \<comment> \<open>an assistant that complains and exits with status 1\<close>
  "crashes = (answering [])\<lparr>cmd_Wait := (\<lambda>s. Some exit_status_1),
                             stderr := (\<lambda>s. ''not logged in'')\<rparr>"

definition notes_contents :: "string \<Rightarrow> string" where
  "notes_contents p = (if p = ''notes/a.txt'' then ''alpha'' else ''beta'')"



definition desk_session :: session where
  \<comment> \<open>a terminal with the local assistant installed and no key for the remote one; the user
      takes the first template, enters \<open>the notes\<close>, saves under \<open>00_Inbox/notes\<close> and
      accepts the file name offered\<close>
  "desk_session =
     \<lparr>Getenv = (\<lambda>v. []),
      claude_IsAvailable = True,
      claude = answering (''Hello'' @ [newline]),
      openrouter_ExecutePrompt = (\<lambda>apiKey promptContent userInput. ([], Some (Foreign ''401 Unauthorized''))),
      Now_date = ''2024-05-01'',
      Now_stamp = ''2024-05-01 10:00:00'',
      Stdin_CharDevice = Inr True,
      Stdin_ReadAll = Inr [],
      Select_template = (\<lambda>templates. Inr 0),
      Prompt_input = Inr ''the notes'',
      Prompt_save = Inr ''y'',
      Select_location = Inr 3,
      Prompt_custom = Inr ''99_Assets'',
      Prompt_filename = (\<lambda>defaultFilename. Inr defaultFilename),
      Select_file = (\<lambda>files. Inr 0),
      inputFiles = [],
      useClaudeCode = True,
      discoverFiles = False,
      saveOutput = True,
      outputPath = []\<rparr>"




definition to_file :: session where
  \<comment> \<open>the flag \<open>--output out/answer.md\<close>\<close>
  "to_file = desk_session\<lparr>outputPath := ''out/answer.md''\<rparr>"

section \<open>Facts about the strings\<close>

lemma Split_not_Nil: "Split s sep \<noteq> []"
  by (induction s) (auto split: list.splits)

lemma Split_hd: "hd (Split s sep) = takeWhile (\<lambda>c. c \<noteq> sep) s"
  using Split_not_Nil by (induction s) (auto split: list.splits)

lemma TrimPrefix_hash:
  "TrimPrefix l ''#'' = (if l \<noteq> [] \<and> hd l = CHR ''#'' then tl l else l)"
  by (cases l) (auto simp: TrimPrefix_def HasPrefix_def)

lemma TrimSpace_blank: "\<forall>c \<in> set q. asciiSpace c \<Longrightarrow> TrimSpace U q = []"
proof -
  assume "\<forall>c \<in> set q. asciiSpace c"
  then have d: "dropWhile asciiSpace q = []" by simp
  show ?thesis unfolding TrimSpace_def d by simp
qed

lemma ToLower_Nil: "ToLower U [] = []"
  by (simp add: ToLower_def)

lemma Contains_Nil: "Contains s []"
  by (induction s) (simp_all add: HasPrefix_def)

lemma lowerASCII_letters:
  "lowerASCII CHR ''S'' = CHR ''s''" "lowerASCII CHR ''F'' = CHR ''f''"
  "lowerASCII CHR ''P'' = CHR ''p''" "lowerASCII CHR ''D'' = CHR ''d''"
  by code_simp+

lemma lowerASCII_lower: "\<not> isUpper c \<Longrightarrow> lowerASCII c = c"
  by (simp add: lowerASCII_def)

lemmas string_defs =
  HasSuffix_def TrimSuffix_def HasPrefix_def TrimPrefix_def ReplaceAll_def newline_def

lemmas lower_defs =
  ToLower_def RuneSelf_def isUpper_def lowerASCII_letters lowerASCII_lower

lemmas space_defs = TrimSpace_def asciiSpace_def RuneSelf_def

lemmas fs_defs =
  templates_fs_def plain_file_def directory_def example_Join_def example_Base_def
  example_Dir_def no_such_file_def permission_denied_def ascii_only_def

section \<open>Listing the templates\<close>

lemma ListPrompts_loop_skip:
  "\<forall>e \<in> set entries. entry_IsDir e \<or> \<not> HasSuffix (entry_Name e) ''.md'' \<Longrightarrow>
   ListPrompts_loop U F pp entries acc = acc"
  by (induction entries arbitrary: acc) auto

lemma ListPrompts_loop_described:
  "\<forall>p \<in> set acc. described U F p \<Longrightarrow>
   \<forall>p \<in> set (ListPrompts_loop U F pp entries acc). described U F p"
proof (induction entries arbitrary: acc)
  case Nil
  then show ?case by simp
next
  case (Cons e es)
  show ?case
  proof (cases "entry_IsDir e \<or> \<not> HasSuffix (entry_Name e) ''.md''")
    case True
    then have "ListPrompts_loop U F pp (e # es) acc = ListPrompts_loop U F pp es acc"
      by simp
    then show ?thesis using Cons.IH [OF Cons.prems] by simp
  next
    case False
    obtain new where
      step: "ListPrompts_loop U F pp (e # es) acc = ListPrompts_loop U F pp es (acc @ [new])"
      and new: "described U F new"
    proof
      let ?fullPath = "Join F [pp, entry_Name e]"
      let ?d = "case ReadFile F ?fullPath of
                 Inl err \<Rightarrow> []
               | Inr content \<Rightarrow>
                   (let lines = Split content newline
                    in if 0 < length lines
                       then (let description = TrimSpace U (TrimPrefix (lines ! 0) ''#'')
                             in if 60 < length description
                                then take 60 description @ ''...''
                                else description)
                       else [])"
      let ?new = "\<lparr>Name = ReplaceAll (TrimSuffix (entry_Name e) ''.md'') (CHR ''_'') (CHR '' ''),
                   FileName = entry_Name e, Path = ?fullPath, Description = ?d\<rparr>"
      show "ListPrompts_loop U F pp (e # es) acc = ListPrompts_loop U F pp es (acc @ [?new])"
        using False by (simp add: Let_def)
      show "described U F ?new"
      proof (cases "ReadFile F ?fullPath")
        case (Inl err)
        then show ?thesis by (simp add: described_def)
      next
        case (Inr content)
        have "Split content newline \<noteq> []" by (rule Split_not_Nil)
        then show ?thesis using Inr
          by (simp add: described_def Let_def hd_conv_nth)
      qed
    qed
    have "\<forall>p \<in> set (acc @ [new]). described U F p"
      using Cons.prems new by simp
    then show ?thesis unfolding step by (rule Cons.IH)
  qed
qed

lemma ListPrompts_Inr:
  "ListPrompts U F root = Inr prompts \<Longrightarrow>
   prompts \<noteq> [] \<and>
   (\<exists>entries. ReadDir F (Join F [root, ''10_PromptTemplates'']) = Inr entries \<and>
      prompts = ListPrompts_loop U F (Join F [root, ''10_PromptTemplates'']) entries [])"
  unfolding ListPrompts_def Let_def
  by (cases "ReadDir F (Join F [root, ''10_PromptTemplates''])")
     (auto split: if_splits)

text \<open>
  Claim C7. Listing fails with \<open>NotFound\<close> when the template directory is absent, with
  \<open>IOError\<close> when the directory is there but cannot be read, and with \<open>NotFound\<close> again when
  every entry of the directory is a directory or a file whose name does not end in
  \<open>.md\<close>.
\<close>

theorem ListPrompts_errors:
  "(Stat_IsNotExist F (Join F [root, ''10_PromptTemplates'']) \<longrightarrow>
      ListPrompts U F root = Inl (PromptsDirNotFoundAt (Join F [root, ''10_PromptTemplates''])) \<and>
      NotFound (PromptsDirNotFoundAt (Join F [root, ''10_PromptTemplates''])))
   \<and> (\<not> Stat_IsNotExist F (Join F [root, ''10_PromptTemplates'']) \<and>
        ReadDir F (Join F [root, ''10_PromptTemplates'']) = Inl err \<longrightarrow>
      ListPrompts U F root = Inl (ReadPromptsDirFailed err) \<and>
      IOError (ReadPromptsDirFailed err))
   \<and> (\<not> Stat_IsNotExist F (Join F [root, ''10_PromptTemplates'']) \<and>
        ReadDir F (Join F [root, ''10_PromptTemplates'']) = Inr entries \<and>
        (\<forall>e \<in> set entries. entry_IsDir e \<or> \<not> HasSuffix (entry_Name e) ''.md'') \<longrightarrow>
      ListPrompts U F root = Inl (NoPromptsFoundIn (Join F [root, ''10_PromptTemplates''])) \<and>
      NotFound (NoPromptsFoundIn (Join F [root, ''10_PromptTemplates''])))"
  by (simp add: ListPrompts_def Let_def ListPrompts_loop_skip)

text \<open>
  The three cases on a project without the directory, on one whose directory cannot be
  listed, and on one that holds \<open>notes.txt\<close> and a directory named \<open>drafts.md\<close>.
\<close>

theorem ListPrompts_errors_witness:
  "ListPrompts ascii_only missing_fs ''.'' = Inl (PromptsDirNotFoundAt ''10_PromptTemplates'')
   \<and> ListPrompts ascii_only unreadable_fs ''.'' = Inl (ReadPromptsDirFailed permission_denied)
   \<and> ListPrompts ascii_only notes_only_fs ''.'' = Inl (NoPromptsFoundIn ''10_PromptTemplates'')"
  using ListPrompts_errors [where F = missing_fs and root = "''.''" and U = ascii_only]
    ListPrompts_errors [where F = unreadable_fs and root = "''.''" and U = ascii_only
      and err = permission_denied]
    ListPrompts_errors [where F = notes_only_fs and root = "''.''" and U = ascii_only
      and entries = "[directory ''drafts.md'', plain_file ''notes.txt'']"]
  by (simp add: missing_fs_def unreadable_fs_def notes_only_fs_def fs_defs string_defs)

lemma scenario_list:
  "ListPrompts ascii_only scenario_fs ''.'' =
     Inr [\<lparr>Name = ''Sales Discovery'', FileName = ''Sales_Discovery.md'',
           Path = ''10_PromptTemplates/Sales_Discovery.md'',
           Description = ''Discover Needs''\<rparr>]"
  by (simp add: ListPrompts_def scenario_fs_def sales_content_def fs_defs string_defs
      space_defs Let_def)

lemma agenda_list:
  "ListPrompts ascii_only agenda_fs ''.'' =
     Inr [\<lparr>Name = ''Agenda'', FileName = ''Agenda.md'',
           Path = ''10_PromptTemplates/Agenda.md'',
           Description =
             ''Agenda and talking points for the first workshop with the pl...''\<rparr>]"
  by (simp add: ListPrompts_def agenda_fs_def agenda_content_def fs_defs string_defs
      space_defs Let_def)

text \<open>
  Claim C4. What the code stores, counted in bytes: for every template that is listed and
  whose file can be read, take the first line of the content (the bytes before the first
  newline), drop one leading \<open>#\<close> if there is one, and trim the white space around what
  is left. If the result has more than 60 bytes, the description stored is its first 60
  bytes followed by three dots, 63 bytes in all; otherwise the description stored is the
  result itself. On ASCII text, where a character is a byte, this is the claim.
\<close>

theorem ListPrompts_description:
  assumes "ListPrompts U F root = Inr prompts"
    and "p \<in> set prompts"
    and "ReadFile F (Path p) = Inr content"
  shows "let line = takeWhile (\<lambda>c. c \<noteq> newline) content;
             d = TrimSpace U (if line \<noteq> [] \<and> hd line = CHR ''#'' then tl line else line)
         in (60 < length d \<longrightarrow>
               Description p = take 60 d @ ''...'' \<and> length (Description p) = 63)
          \<and> (length d \<le> 60 \<longrightarrow> Description p = d)"
proof -
  from assms(1) obtain entries where
    "prompts = ListPrompts_loop U F (Join F [root, ''10_PromptTemplates'']) entries []"
    using ListPrompts_Inr by blast
  then have "described U F p"
    using ListPrompts_loop_described [of "[]" U F] assms(2) by simp
  then have "let d = TrimSpace U (TrimPrefix (hd (Split content newline)) ''#'')
             in Description p = (if 60 < length d then take 60 d @ ''...'' else d)"
    using assms(3) by (simp add: described_def)
  then show ?thesis
    unfolding Split_hd TrimPrefix_hash Let_def by simp
qed

text \<open>
  The listing of a project with one template, whose heading of 71 bytes is cut to 60 bytes
  and three dots.
\<close>

theorem ListPrompts_description_witness:
  "ListPrompts ascii_only agenda_fs ''.'' =
     Inr [\<lparr>Name = ''Agenda'', FileName = ''Agenda.md'',
           Path = ''10_PromptTemplates/Agenda.md'',
           Description =
             ''Agenda and talking points for the first workshop with the pl...''\<rparr>]
   \<and> ReadFile agenda_fs ''10_PromptTemplates/Agenda.md'' = Inr agenda_content
   \<and> TrimSpace ascii_only (tl (takeWhile (\<lambda>c. c \<noteq> newline) agenda_content)) =
       ''Agenda and talking points for the first workshop with the platform team''
   \<and> (71::nat) = length ''Agenda and talking points for the first workshop with the platform team''
   \<and> ''Agenda and talking points for the first workshop with the pl...'' =
       take 60 ''Agenda and talking points for the first workshop with the platform team''
         @ ''...''"
proof -
  have r: "ReadFile agenda_fs
             (Path \<lparr>Name = ''Agenda'', FileName = ''Agenda.md'',
                    Path = ''10_PromptTemplates/Agenda.md'',
                    Description =
                     ''Agenda and talking points for the first workshop with the pl...''\<rparr>) =
           Inr agenda_content"
    by (simp add: agenda_fs_def fs_defs)
  show ?thesis
    using ListPrompts_description [OF agenda_list _ r] r agenda_list
    by (simp add: agenda_content_def space_defs newline_def Let_def)
qed

lemma menu_list:
  "ListPrompts plain_text menu_fs ''.'' =
     Inr [\<lparr>Name = ''Menu'', FileName = ''Menu.md'',
           Path = ''10_PromptTemplates/Menu.md'',
           Description = take 60 (''a'' @ ten_e @ ten_e @ ten_e @ ten_e) @ ''...''\<rparr>]"
  by (simp add: ListPrompts_def menu_fs_def menu_content_def ten_e_def e_acute_def
      plain_text_def templates_fs_def plain_file_def example_Join_def string_defs
      space_defs Let_def)

text \<open>
  The claim counts in characters. The heading of \<open>Menu.md\<close> is the letter \<open>a\<close> followed
  by forty letters \<open>e\<close> with an acute accent: 41 characters, which the claim stores
  unchanged, in 81 bytes of UTF-8. The code cuts it after 60 bytes, in the middle of the
  thirtieth accented letter, and appends the dots.
\<close>

theorem ListPrompts_description_counterexample:
  "ListPrompts plain_text menu_fs ''.'' =
     Inr [\<lparr>Name = ''Menu'', FileName = ''Menu.md'',
           Path = ''10_PromptTemplates/Menu.md'',
           Description = take 60 (''a'' @ ten_e @ ten_e @ ten_e @ ten_e) @ ''...''\<rparr>]
   \<and> ReadFile menu_fs ''10_PromptTemplates/Menu.md'' = Inr menu_content
   \<and> TrimSpace plain_text (TrimPrefix (hd (Split menu_content newline)) ''#'') =
       ''a'' @ ten_e @ ten_e @ ten_e @ ten_e
   \<and> RuneCountInString (''a'' @ ten_e @ ten_e @ ten_e @ ten_e) = 41
   \<and> length (''a'' @ ten_e @ ten_e @ ten_e @ ten_e) = 81
   \<and> take 60 (''a'' @ ten_e @ ten_e @ ten_e @ ten_e) @ ''...'' \<noteq>
       ''a'' @ ten_e @ ten_e @ ten_e @ ten_e
   \<and> last (take 60 (''a'' @ ten_e @ ten_e @ ten_e @ ten_e)) = CHR 0xC3"
  by (simp add: menu_list)
     (simp add: menu_fs_def menu_content_def ten_e_def e_acute_def plain_text_def
        templates_fs_def RuneCountInString_def string_defs space_defs)

section \<open>Finding a template\<close>

lemma FindPrompt_exact_find:
  "FindPrompt_exact U t ps =
   find (\<lambda>p. ToLower U (Name p) = t \<or> ToLower U (TrimSuffix (FileName p) ''.md'') = t) ps"
  by (induction ps) auto

lemma FindPrompt_partial_find:
  "FindPrompt_partial U t ps = find (\<lambda>p. Contains (ToLower U (Name p)) t) ps"
  by (induction ps) auto

lemma find_first:
  "\<exists>x \<in> set xs. P x \<Longrightarrow>
   \<exists>i < length xs. find P xs = Some (xs ! i) \<and> P (xs ! i) \<and> (\<forall>j < i. \<not> P (xs ! j))"
proof -
  assume "\<exists>x \<in> set xs. P x"
  then obtain x where "find P xs = Some x"
    by (cases "find P xs") (auto simp: find_None_iff)
  then show ?thesis
    by (auto simp: find_Some_iff)
qed

lemma find_Some_mem: "find P xs = Some x \<Longrightarrow> x \<in> set xs \<and> P x"
  by (auto simp: find_Some_iff)

lemma find_unique:
  "x \<in> set xs \<Longrightarrow> P x \<Longrightarrow> \<forall>y \<in> set xs. P y \<longrightarrow> y = x \<Longrightarrow> find P xs = Some x"
proof -
  assume a: "x \<in> set xs" "P x" "\<forall>y \<in> set xs. P y \<longrightarrow> y = x"
  then obtain i where "i < length xs" "find P xs = Some (xs ! i)" "P (xs ! i)"
    using find_first [of xs P] by blast
  then show ?thesis using a(3) by (metis nth_mem)
qed

lemma collision_list:
  "ListPrompts ascii_only collision_fs ''.'' =
     Inr [\<lparr>Name = ''Pre Sales'', FileName = ''Pre_Sales.md'',
           Path = ''10_PromptTemplates/Pre_Sales.md'', Description = ''''\<rparr>,
          \<lparr>Name = ''Sales'', FileName = ''Sales.md'',
           Path = ''10_PromptTemplates/Sales.md'', Description = ''''\<rparr>]"
  by (simp add: ListPrompts_def collision_fs_def fs_defs string_defs Let_def)

lemma trailing_list:
  "ListPrompts ascii_only trailing_fs ''.'' =
     Inr [\<lparr>Name = ''Pre Sales'', FileName = ''Pre_Sales.md'',
           Path = ''10_PromptTemplates/Pre_Sales.md'', Description = ''''\<rparr>,
          \<lparr>Name = ''Sales '', FileName = ''Sales_.md'',
           Path = ''10_PromptTemplates/Sales_.md'', Description = ''''\<rparr>]"
  by (simp add: ListPrompts_def trailing_fs_def fs_defs string_defs Let_def)

lemma dotmd_list:
  "ListPrompts ascii_only dotmd_fs ''.'' =
     Inr [\<lparr>Name = ''-a'', FileName = ''-a.md'',
           Path = ''10_PromptTemplates/-a.md'', Description = ''''\<rparr>,
          \<lparr>Name = '''', FileName = ''.md'',
           Path = ''10_PromptTemplates/.md'', Description = ''''\<rparr>]"
  by (simp add: ListPrompts_def dotmd_fs_def fs_defs string_defs Let_def)

lemma ToLower_examples:
  "ToLower ascii_only ''Sales'' = ''sales''"
  "ToLower ascii_only ''Pre Sales'' = ''pre sales''"
  "ToLower ascii_only ''Pre_Sales'' = ''pre_sales''"
  "ToLower ascii_only ''Sales '' = ''sales ''"
  "ToLower ascii_only ''Sales_'' = ''sales_''"
  "ToLower ascii_only ''-a'' = ''-a''"
  "ToLower ascii_only ''Sales Discovery'' = ''sales discovery''"
  "ToLower ascii_only ''Sales_Discovery'' = ''sales_discovery''"
  by (simp_all add: lower_defs ascii_only_def)

lemma TrimSpace_examples:
  "TrimSpace ascii_only '' Sales  '' = ''Sales''"
  "TrimSpace ascii_only ''Sales '' = ''Sales''"
  "TrimSpace ascii_only ''  '' = ''''"
  "TrimSpace ascii_only ''sales discovery'' = ''sales discovery''"
  by (simp_all add: space_defs ascii_only_def)

text \<open>
  Claim C3, as amended. Let the listing succeed, and call a template an exact match when
  its display name or its file name without the extension, in lower case, equals the
  trimmed query in lower case. If there is an exact match, \<open>find\<close> returns the first exact
  match in listing order, also when the query is part of the name of a template listed
  earlier; so it returns a given template whenever that template is the only exact match.
  If there is no exact match, \<open>find\<close> returns the first template whose display name
  contains the query. It fails exactly when no template matches in either way, and then
  with \<open>NotFound\<close>.
\<close>

theorem FindPrompt_exact_first:
  assumes "ListPrompts U F root = Inr prompts"
  shows "let t = ToLower U (TrimSpace U q);
             exact = (\<lambda>p. ToLower U (Name p) = t \<or>
                           ToLower U (TrimSuffix (FileName p) ''.md'') = t);
             partial = (\<lambda>p. Contains (ToLower U (Name p)) t)
         in ((\<exists>p \<in> set prompts. exact p) \<longrightarrow>
               (\<exists>i < length prompts. FindPrompt U F root q = Inr (prompts ! i) \<and>
                  exact (prompts ! i) \<and> (\<forall>j < i. \<not> exact (prompts ! j))))
          \<and> (\<forall>p \<in> set prompts. exact p \<and> (\<forall>p' \<in> set prompts. exact p' \<longrightarrow> p' = p) \<longrightarrow>
                FindPrompt U F root q = Inr p)
          \<and> ((\<forall>p \<in> set prompts. \<not> exact p) \<and> (\<exists>p \<in> set prompts. partial p) \<longrightarrow>
               (\<exists>i < length prompts. FindPrompt U F root q = Inr (prompts ! i) \<and>
                  partial (prompts ! i) \<and> (\<forall>j < i. \<not> partial (prompts ! j))))
          \<and> ((\<exists>e. FindPrompt U F root q = Inl e) \<longleftrightarrow>
               (\<forall>p \<in> set prompts. \<not> exact p \<and> \<not> partial p))
          \<and> (\<forall>e. FindPrompt U F root q = Inl e \<longrightarrow> e = PromptNotFound q \<and> NotFound e)"
proof -
  define t where "t = ToLower U (TrimSpace U q)"
  define exact :: "PromptInfo \<Rightarrow> bool" where "exact = (\<lambda>p. ToLower U (Name p) = t \<or>
                           ToLower U (TrimSuffix (FileName p) ''.md'') = t)"
  define partial :: "PromptInfo \<Rightarrow> bool" where "partial = (\<lambda>p. Contains (ToLower U (Name p)) t)"
  have F: "FindPrompt U F root q =
        (case find exact prompts of
           Some p \<Rightarrow> Inr p
         | None \<Rightarrow> (case find partial prompts of
                      Some p \<Rightarrow> Inr p
                    | None \<Rightarrow> Inl (PromptNotFound q)))"
    using assms
    by (simp add: FindPrompt_def Let_def FindPrompt_exact_find FindPrompt_partial_find
        t_def exact_def partial_def cong: option.case_cong)
  have 1: "\<exists>i < length prompts. FindPrompt U F root q = Inr (prompts ! i) \<and>
                  exact (prompts ! i) \<and> (\<forall>j < i. \<not> exact (prompts ! j))"
    if "\<exists>p \<in> set prompts. exact p"
    using find_first [OF that] F by auto
  have 2: "FindPrompt U F root q = Inr p"
    if "p \<in> set prompts" "exact p" "\<forall>p' \<in> set prompts. exact p' \<longrightarrow> p' = p" for p
    using find_unique [OF that] F by simp
  have 3: "\<exists>i < length prompts. FindPrompt U F root q = Inr (prompts ! i) \<and>
                  partial (prompts ! i) \<and> (\<forall>j < i. \<not> partial (prompts ! j))"
    if "\<forall>p \<in> set prompts. \<not> exact p" "\<exists>p \<in> set prompts. partial p"
  proof -
    have "find exact prompts = None" using that(1) by (simp add: find_None_iff)
    then show ?thesis using find_first [OF that(2)] F by auto
  qed
  have 4: "(\<exists>e. FindPrompt U F root q = Inl e) \<longleftrightarrow>
               (\<forall>p \<in> set prompts. \<not> exact p \<and> \<not> partial p)"
    unfolding F by (auto simp: find_None_iff dest: find_Some_mem split: option.splits)
  have 5: "e = PromptNotFound q \<and> NotFound e" if "FindPrompt U F root q = Inl e" for e
    using that unfolding F by (auto split: option.splits)
  note u = exact_def partial_def t_def
  show ?thesis
    unfolding Let_def
  proof (intro conjI)
    show "(\<exists>p\<in>set prompts. ToLower U (Name p) = ToLower U (TrimSpace U q) \<or>
            ToLower U (TrimSuffix (FileName p) ''.md'') = ToLower U (TrimSpace U q)) \<longrightarrow>
          (\<exists>i<length prompts. FindPrompt U F root q = Inr (prompts ! i) \<and>
            (ToLower U (Name (prompts ! i)) = ToLower U (TrimSpace U q) \<or>
             ToLower U (TrimSuffix (FileName (prompts ! i)) ''.md'') = ToLower U (TrimSpace U q)) \<and>
            (\<forall>j<i. \<not> (ToLower U (Name (prompts ! j)) = ToLower U (TrimSpace U q) \<or>
                ToLower U (TrimSuffix (FileName (prompts ! j)) ''.md'') =
                ToLower U (TrimSpace U q))))"
      using 1 [unfolded u] by (rule impI)
    show "\<forall>p\<in>set prompts.
          (ToLower U (Name p) = ToLower U (TrimSpace U q) \<or>
           ToLower U (TrimSuffix (FileName p) ''.md'') = ToLower U (TrimSpace U q)) \<and>
          (\<forall>p'\<in>set prompts.
              ToLower U (Name p') = ToLower U (TrimSpace U q) \<or>
              ToLower U (TrimSuffix (FileName p') ''.md'') = ToLower U (TrimSpace U q) \<longrightarrow>
              p' = p) \<longrightarrow>
          FindPrompt U F root q = Inr p"
      using 2 [unfolded u] by (intro ballI impI) (elim conjE)
    show "(\<forall>p\<in>set prompts. \<not> (ToLower U (Name p) = ToLower U (TrimSpace U q) \<or>
             ToLower U (TrimSuffix (FileName p) ''.md'') = ToLower U (TrimSpace U q))) \<and>
          (\<exists>p\<in>set prompts. Contains (ToLower U (Name p)) (ToLower U (TrimSpace U q))) \<longrightarrow>
          (\<exists>i<length prompts. FindPrompt U F root q = Inr (prompts ! i) \<and>
            Contains (ToLower U (Name (prompts ! i))) (ToLower U (TrimSpace U q)) \<and>
            (\<forall>j<i. \<not> Contains (ToLower U (Name (prompts ! j))) (ToLower U (TrimSpace U q))))"
      using 3 [unfolded u] by (intro impI) (elim conjE)
    show "(\<exists>e. FindPrompt U F root q = Inl e) =
          (\<forall>p\<in>set prompts. \<not> (ToLower U (Name p) = ToLower U (TrimSpace U q) \<or>
             ToLower U (TrimSuffix (FileName p) ''.md'') = ToLower U (TrimSpace U q)) \<and>
             \<not> Contains (ToLower U (Name p)) (ToLower U (TrimSpace U q)))"
      by (rule 4 [unfolded u])
    show "\<forall>e. FindPrompt U F root q = Inl e \<longrightarrow> e = PromptNotFound q \<and> NotFound e"
      using 5 by (intro allI impI)
  qed
qed

text \<open>
  With the templates \<open>Pre_Sales.md\<close> and \<open>Sales.md\<close>, in this order, the query \<open>Sales\<close>
  with blanks around it finds the second template, although the first one contains it.
\<close>

theorem FindPrompt_exact_first_witness:
  "FindPrompt ascii_only collision_fs ''.'' '' Sales  '' =
     Inr \<lparr>Name = ''Sales'', FileName = ''Sales.md'',
          Path = ''10_PromptTemplates/Sales.md'', Description = ''''\<rparr>
   \<and> Contains (ToLower ascii_only ''Pre Sales'')
       (ToLower ascii_only (TrimSpace ascii_only '' Sales  ''))"
  using FindPrompt_exact_first [OF collision_list, of "'' Sales  ''"]
  by (simp add: Let_def TrimSpace_examples ToLower_examples string_defs)

text \<open>
  The claim as it was written promises, for a query equal to the display name of a
  template, that template. The file \<open>Sales_.md\<close> has the display name \<open>Sales\<close> followed
  by a space, and no other template has this name. The query is trimmed and the display
  name is not, so this very name, given as the query, matches no template exactly; it is
  part of the name of the template listed first, and \<open>find\<close> returns that one.
\<close>

theorem FindPrompt_exact_counterexample:
  "ListPrompts ascii_only trailing_fs ''.'' =
     Inr [\<lparr>Name = ''Pre Sales'', FileName = ''Pre_Sales.md'',
           Path = ''10_PromptTemplates/Pre_Sales.md'', Description = ''''\<rparr>,
          \<lparr>Name = ''Sales '', FileName = ''Sales_.md'',
           Path = ''10_PromptTemplates/Sales_.md'', Description = ''''\<rparr>]
   \<and> Name \<lparr>Name = ''Sales '', FileName = ''Sales_.md'',
             Path = ''10_PromptTemplates/Sales_.md'', Description = ''''\<rparr> = ''Sales ''
   \<and> Name \<lparr>Name = ''Pre Sales'', FileName = ''Pre_Sales.md'',
             Path = ''10_PromptTemplates/Pre_Sales.md'', Description = ''''\<rparr> \<noteq> ''Sales ''
   \<and> FindPrompt ascii_only trailing_fs ''.'' ''Sales '' =
       Inr \<lparr>Name = ''Pre Sales'', FileName = ''Pre_Sales.md'',
            Path = ''10_PromptTemplates/Pre_Sales.md'', Description = ''''\<rparr>"
  by (simp add: FindPrompt_def trailing_list TrimSpace_examples ToLower_examples Let_def
      string_defs)

text \<open>
  Claim C10, as amended. Let the listing succeed and let the query be empty after trimming.
  Then \<open>find\<close> does not fail: it returns a template of the listing. It returns the first
  template in listing order unless some template has, in lower case, an empty display name
  or an empty file name without the extension (a file named \<open>.md\<close>); in that case it
  returns the first such template.
\<close>

theorem FindPrompt_blank_query:
  assumes "ListPrompts U F root = Inr prompts" and "TrimSpace U q = []"
  shows "(\<exists>p \<in> set prompts. FindPrompt U F root q = Inr p)
       \<and> ((\<forall>p \<in> set prompts. ToLower U (Name p) \<noteq> [] \<and>
                               ToLower U (TrimSuffix (FileName p) ''.md'') \<noteq> []) \<longrightarrow>
            FindPrompt U F root q = Inr (hd prompts))
       \<and> (\<forall>i < length prompts.
             (ToLower U (Name (prompts ! i)) = [] \<or>
              ToLower U (TrimSuffix (FileName (prompts ! i)) ''.md'') = []) \<and>
             (\<forall>j < i. ToLower U (Name (prompts ! j)) \<noteq> [] \<and>
                      ToLower U (TrimSuffix (FileName (prompts ! j)) ''.md'') \<noteq> []) \<longrightarrow>
             FindPrompt U F root q = Inr (prompts ! i))"
proof -
  define exact :: "PromptInfo \<Rightarrow> bool" where "exact = (\<lambda>p. ToLower U (Name p) = [] \<or>
                           ToLower U (TrimSuffix (FileName p) ''.md'') = [])"
  obtain p ps where ps: "prompts = p # ps"
    using ListPrompts_Inr [OF assms(1)] by (cases prompts) auto
  have F: "FindPrompt U F root q =
        (case find exact prompts of Some p \<Rightarrow> Inr p | None \<Rightarrow> Inr (hd prompts))"
    using assms
    by (simp add: FindPrompt_def Let_def FindPrompt_exact_find ToLower_Nil
        exact_def ps Contains_Nil cong: option.case_cong)
  have 1: "\<exists>p \<in> set prompts. FindPrompt U F root q = Inr p"
    unfolding F using ps by (auto simp: find_Some_iff split: option.splits)
  have 2: "FindPrompt U F root q = Inr (hd prompts)" if "\<forall>p \<in> set prompts. \<not> exact p"
  proof -
    have "find exact prompts = None" using that by (simp add: find_None_iff)
    then show ?thesis unfolding F by simp
  qed
  have 3: "FindPrompt U F root q = Inr (prompts ! i)"
    if "i < length prompts" "exact (prompts ! i)" "\<forall>j < i. \<not> exact (prompts ! j)" for i
  proof -
    have "find exact prompts = Some (prompts ! i)"
      using that by (auto simp: find_Some_iff)
    then show ?thesis unfolding F by simp
  qed
  show ?thesis
    using 1 2 3 unfolding exact_def by blast
qed

text \<open>
  With \<open>Pre_Sales.md\<close> and \<open>Sales.md\<close> a query of two blanks finds the first template.
\<close>

theorem FindPrompt_blank_query_witness:
  "TrimSpace ascii_only ''  '' = []
   \<and> FindPrompt ascii_only collision_fs ''.'' ''  '' =
       Inr \<lparr>Name = ''Pre Sales'', FileName = ''Pre_Sales.md'',
            Path = ''10_PromptTemplates/Pre_Sales.md'', Description = ''''\<rparr>"
proof -
  have b: "TrimSpace ascii_only ''  '' = []"
    by (simp add: TrimSpace_examples)
  show ?thesis
    using FindPrompt_blank_query [OF collision_list b] b
    by (simp add: ToLower_examples string_defs)
qed

text \<open>
  The claim as it was written says that the empty query fails every exact check and that
  the first template is returned. With the files \<open>-a.md\<close> and \<open>.md\<close>, listed in this
  order, the display name of the second is empty: the empty query matches it exactly, and
  the second template is returned.
\<close>

theorem FindPrompt_blank_query_counterexample:
  "ListPrompts ascii_only dotmd_fs ''.'' =
     Inr [\<lparr>Name = ''-a'', FileName = ''-a.md'',
           Path = ''10_PromptTemplates/-a.md'', Description = ''''\<rparr>,
          \<lparr>Name = '''', FileName = ''.md'',
           Path = ''10_PromptTemplates/.md'', Description = ''''\<rparr>]
   \<and> TrimSpace ascii_only ''  '' = []
   \<and> FindPrompt ascii_only dotmd_fs ''.'' ''  '' =
       Inr \<lparr>Name = '''', FileName = ''.md'',
            Path = ''10_PromptTemplates/.md'', Description = ''''\<rparr>"
  by (simp add: FindPrompt_def dotmd_list TrimSpace_examples ToLower_examples ToLower_Nil
      Let_def string_defs)

section \<open>Formatting the context files\<close>

lemma FormatFileContext_loop_append:
  "\<forall>p \<in> set pre. \<not> isl (ReadFile F p) \<Longrightarrow>
   FormatFileContext_loop F (pre @ rest) builder reads =
   FormatFileContext_loop F rest
     (builder @ concat (map (\<lambda>p. ''=== File: '' @ Base F p @ '' ==='' @ [newline, newline] @
                                    projr (ReadFile F p) @ [newline, newline]) pre))
     (reads @ pre)"
proof (induction pre arbitrary: builder reads)
  case Nil
  then show ?case by simp
next
  case (Cons p ps)
  from Cons.prems obtain c where c: "ReadFile F p = Inr c"
    by (cases "ReadFile F p") auto
  have ps: "\<forall>p \<in> set ps. \<not> isl (ReadFile F p)"
    using Cons.prems by simp
  show ?case
    by (simp add: ReadFileContent_def c Cons.IH [OF ps])
qed

lemma FormatFileContext_loop_fails:
  "ReadFile F bad = Inl err \<Longrightarrow>
   FormatFileContext_loop F (bad # post) builder reads =
   (([], Some (ReadFileFailed bad err)), reads @ [bad])"
  by (simp add: ReadFileContent_def)

lemma first_unreadable:
  assumes "\<exists>p \<in> set files. isl (ReadFile F p)"
  shows "files = takeWhile (\<lambda>p. \<not> isl (ReadFile F p)) files
                 @ hd (dropWhile (\<lambda>p. \<not> isl (ReadFile F p)) files)
                 # tl (dropWhile (\<lambda>p. \<not> isl (ReadFile F p)) files)"
    and "isl (ReadFile F (hd (dropWhile (\<lambda>p. \<not> isl (ReadFile F p)) files)))"
proof -
  have ne: "dropWhile (\<lambda>p. \<not> isl (ReadFile F p)) files \<noteq> []"
    using assms by (auto simp: dropWhile_eq_Nil_conv)
  then show "files = takeWhile (\<lambda>p. \<not> isl (ReadFile F p)) files
                 @ hd (dropWhile (\<lambda>p. \<not> isl (ReadFile F p)) files)
                 # tl (dropWhile (\<lambda>p. \<not> isl (ReadFile F p)) files)"
    by simp
  show "isl (ReadFile F (hd (dropWhile (\<lambda>p. \<not> isl (ReadFile F p)) files)))"
    using hd_dropWhile [OF ne] by simp
qed

text \<open>
  Claim C5. When every file of the list can be read, the formatter returns, without an
  error, the header line \<open>Context Files:\<close> and an empty line, followed for each file, in
  the order of the list, by one banner line with the base name of the file, an empty line,
  the whole content of the file and a blank-line separator; and it has read exactly the
  files of the list, in this order.
\<close>

theorem FormatFileContext_layout:
  assumes "\<forall>p \<in> set files. ReadFile F p = Inr (contents p)"
  shows "FormatFileContext F files =
           (''Context Files:'' @ [newline, newline] @
            concat (map (\<lambda>p. ''=== File: '' @ Base F p @ '' ==='' @ [newline, newline] @
                              contents p @ [newline, newline]) files),
            None)
       \<and> snd (FormatFileContext_reads F files) = files"
proof -
  have r: "\<forall>p \<in> set files. \<not> isl (ReadFile F p)"
    using assms by simp
  have m: "map (\<lambda>p. ''=== File: '' @ Base F p @ '' ==='' @ [newline, newline] @
                     projr (ReadFile F p) @ [newline, newline]) files =
           map (\<lambda>p. ''=== File: '' @ Base F p @ '' ==='' @ [newline, newline] @
                     contents p @ [newline, newline]) files"
    using assms by simp
  show ?thesis
    using FormatFileContext_loop_append [OF r, of "[]" "''Context Files:'' @ [newline, newline]" "[]"]
    unfolding m by (simp add: FormatFileContext_def FormatFileContext_reads_def)
qed

text \<open>
  Two notes, \<open>notes/a.txt\<close> with the content \<open>alpha\<close> and \<open>notes/b.txt\<close> with the content
  \<open>beta\<close>, in this order and in the opposite one.
\<close>

theorem FormatFileContext_layout_witness:
  "FormatFileContext scenario_fs [''notes/a.txt'', ''notes/b.txt''] =
     (''Context Files:'' @ [newline, newline] @
      ''=== File: a.txt ==='' @ [newline, newline] @ ''alpha'' @ [newline, newline] @
      ''=== File: b.txt ==='' @ [newline, newline] @ ''beta'' @ [newline, newline], None)
   \<and> FormatFileContext scenario_fs [''notes/b.txt'', ''notes/a.txt''] =
     (''Context Files:'' @ [newline, newline] @
      ''=== File: b.txt ==='' @ [newline, newline] @ ''beta'' @ [newline, newline] @
      ''=== File: a.txt ==='' @ [newline, newline] @ ''alpha'' @ [newline, newline], None)"
  using FormatFileContext_layout [of "[''notes/a.txt'', ''notes/b.txt'']" scenario_fs notes_contents]
    FormatFileContext_layout [of "[''notes/b.txt'', ''notes/a.txt'']" scenario_fs notes_contents]
  by (simp add: scenario_fs_def notes_contents_def fs_defs)

text \<open>
  Claim C6. When some file of the list cannot be read, let \<open>bad\<close> be the first such file
  in the order of the list. The formatter returns the empty string together with the
  error of reading \<open>bad\<close>, which is an \<open>IOError\<close> whose message names the path \<open>bad\<close>; it
  has read the files before \<open>bad\<close>, all of them readable, and \<open>bad\<close> itself, and no file
  after it.
\<close>

theorem FormatFileContext_first_unreadable:
  assumes "\<exists>p \<in> set files. isl (ReadFile F p)"
  shows "let pre = takeWhile (\<lambda>p. \<not> isl (ReadFile F p)) files;
             bad = hd (dropWhile (\<lambda>p. \<not> isl (ReadFile F p)) files);
             post = tl (dropWhile (\<lambda>p. \<not> isl (ReadFile F p)) files);
             e = ReadFileFailed bad (projl (ReadFile F bad))
         in files = pre @ bad # post
          \<and> (\<forall>p \<in> set pre. \<not> isl (ReadFile F p))
          \<and> isl (ReadFile F bad)
          \<and> FormatFileContext F files = ([], Some e)
          \<and> IOError e
          \<and> Error e = ''failed to read file '' @ bad @ '': '' @ Error (projl (ReadFile F bad))
          \<and> snd (FormatFileContext_reads F files) = pre @ [bad]"
proof -
  define pre where "pre = takeWhile (\<lambda>p. \<not> isl (ReadFile F p)) files"
  define bad where "bad = hd (dropWhile (\<lambda>p. \<not> isl (ReadFile F p)) files)"
  define post where "post = tl (dropWhile (\<lambda>p. \<not> isl (ReadFile F p)) files)"
  have files: "files = pre @ bad # post"
    unfolding pre_def bad_def post_def by (rule first_unreadable(1) [OF assms])
  have pre: "\<forall>p \<in> set pre. \<not> isl (ReadFile F p)"
    unfolding pre_def by (auto dest: set_takeWhileD)
  have isl: "isl (ReadFile F bad)"
    unfolding bad_def by (rule first_unreadable(2) [OF assms])
  then have bad: "ReadFile F bad = Inl (projl (ReadFile F bad))"
    by simp
  have run: "FormatFileContext_reads F (pre @ bad # post) =
               (([], Some (ReadFileFailed bad (projl (ReadFile F bad)))), pre @ [bad])"
    unfolding FormatFileContext_reads_def FormatFileContext_loop_append [OF pre]
      FormatFileContext_loop_fails [OF bad]
    by simp
  have run': "FormatFileContext_reads F files =
               (([], Some (ReadFileFailed bad (projl (ReadFile F bad)))), pre @ [bad])"
    using run unfolding files [symmetric] .
  show ?thesis
    unfolding Let_def pre_def [symmetric] bad_def [symmetric] post_def [symmetric]
  proof (intro conjI)
    show "files = pre @ bad # post" by (rule files)
    show "\<forall>p \<in> set pre. \<not> isl (ReadFile F p)" by (rule pre)
    show "isl (ReadFile F bad)" by (rule isl)
    show "FormatFileContext F files = ([], Some (ReadFileFailed bad (projl (ReadFile F bad))))"
      by (simp add: FormatFileContext_def run')
    show "IOError (ReadFileFailed bad (projl (ReadFile F bad)))" by simp
    show "Error (ReadFileFailed bad (projl (ReadFile F bad))) =
            ''failed to read file '' @ bad @ '': '' @ Error (projl (ReadFile F bad))"
      by simp
    show "snd (FormatFileContext_reads F files) = pre @ [bad]"
      by (simp add: run')
  qed
qed

text \<open>
  Between the two notes the list names a file that does not exist: the first note and the
  missing file are read, the second note is not.
\<close>

theorem FormatFileContext_first_unreadable_witness:
  "FormatFileContext scenario_fs [''notes/a.txt'', ''notes/gone.txt'', ''notes/b.txt''] =
     ([], Some (ReadFileFailed ''notes/gone.txt'' no_such_file))
   \<and> Error (ReadFileFailed ''notes/gone.txt'' no_such_file) =
       ''failed to read file notes/gone.txt: no such file or directory''
   \<and> snd (FormatFileContext_reads scenario_fs
            [''notes/a.txt'', ''notes/gone.txt'', ''notes/b.txt'']) =
       [''notes/a.txt'', ''notes/gone.txt'']"
  using FormatFileContext_first_unreadable
    [of "[''notes/a.txt'', ''notes/gone.txt'', ''notes/b.txt'']" scenario_fs]
  by (simp add: scenario_fs_def fs_defs Let_def)

section \<open>Running the local assistant\<close>

lemma TrimSpace_Hello:
  "TrimSpace ascii_only [CHR ''H'', CHR ''e'', CHR ''l'', CHR ''l'', CHR ''o'', newline] = ''Hello''"
  by (simp add: space_defs newline_def)

text \<open>
  Claim C9, as amended. The combined prompt is the template body, an empty line, the line
  \<open>User Request:\<close> and the input of the user. \<open>ExecutePrompt\<close> fails in five cases, and in
  these only: the pipe to the standard input cannot be made, the subprocess cannot be
  started, the prompt cannot be written, the subprocess ends with an error (the message
  then holds what it wrote to its standard error), or it ends well with nothing on its
  standard output. In the first three cases the subprocess has not received the prompt;
  in the other two, and when the call succeeds, it has received exactly the combined
  prompt. A call that fails returns the empty string. A call that succeeds returns the
  standard output with the white space around it trimmed.
\<close>

theorem ExecutePrompt_outcomes:
  "let fullPrompt = promptContent @ [newline, newline] @ ''User Request:'' @ [newline] @ userInput;
       r = ExecutePrompt_stdin U P promptContent userInput
   in (\<forall>e. cmd_StdinPipe P = Some e \<longrightarrow> r = (([], Some (StdinPipeFailed e)), []))
    \<and> (\<forall>e. cmd_StdinPipe P = None \<and> cmd_Start P = Some e \<longrightarrow>
            r = (([], Some (StartFailed e)), []))
    \<and> (\<forall>e. cmd_StdinPipe P = None \<and> cmd_Start P = None \<and>
            stdin_WriteString P fullPrompt = Some e \<longrightarrow>
            r = (([], Some (WritePromptFailed e)), []))
    \<and> (\<forall>e. cmd_StdinPipe P = None \<and> cmd_Start P = None \<and>
            stdin_WriteString P fullPrompt = None \<and> cmd_Wait P fullPrompt = Some e \<longrightarrow>
            r = (([], Some (ExecutionFailed e (stderr P fullPrompt))), [fullPrompt]) \<and>
            Error (ExecutionFailed e (stderr P fullPrompt)) =
              ''claude code execution failed: '' @ Error e @ [newline] @ ''Stderr: '' @
              stderr P fullPrompt)
    \<and> (cmd_StdinPipe P = None \<and> cmd_Start P = None \<and>
        stdin_WriteString P fullPrompt = None \<and> cmd_Wait P fullPrompt = None \<and>
        stdout P fullPrompt = [] \<longrightarrow>
          r = (([], Some NoResponse), [fullPrompt]))
    \<and> (cmd_StdinPipe P = None \<and> cmd_Start P = None \<and>
        stdin_WriteString P fullPrompt = None \<and> cmd_Wait P fullPrompt = None \<and>
        stdout P fullPrompt \<noteq> [] \<longrightarrow>
          r = ((TrimSpace U (stdout P fullPrompt), None), [fullPrompt]))
    \<and> (snd (ExecutePrompt U P promptContent userInput) \<noteq> None \<longleftrightarrow>
          cmd_StdinPipe P \<noteq> None \<or> cmd_Start P \<noteq> None \<or>
          stdin_WriteString P fullPrompt \<noteq> None \<or> cmd_Wait P fullPrompt \<noteq> None \<or>
          stdout P fullPrompt = [])
    \<and> (snd (ExecutePrompt U P promptContent userInput) \<noteq> None \<longrightarrow>
          fst (ExecutePrompt U P promptContent userInput) = [])"
  unfolding Let_def
proof (intro conjI allI impI)
  fix e assume "cmd_StdinPipe P = Some e"
  then show "ExecutePrompt_stdin U P promptContent userInput =
             (([], Some (StdinPipeFailed e)), [])"
    by (simp add: ExecutePrompt_stdin_def Let_def)
next
  fix e assume "cmd_StdinPipe P = None \<and> cmd_Start P = Some e"
  then show "ExecutePrompt_stdin U P promptContent userInput =
             (([], Some (StartFailed e)), [])"
    by (simp add: ExecutePrompt_stdin_def Let_def)
next
  fix e
  assume "cmd_StdinPipe P = None \<and> cmd_Start P = None \<and>
          stdin_WriteString P
            (promptContent @ [newline, newline] @ ''User Request:'' @ [newline] @ userInput) =
          Some e"
  then show "ExecutePrompt_stdin U P promptContent userInput =
             (([], Some (WritePromptFailed e)), [])"
    by (simp add: ExecutePrompt_stdin_def Let_def)
next
  fix e
  assume "cmd_StdinPipe P = None \<and> cmd_Start P = None \<and>
          stdin_WriteString P
            (promptContent @ [newline, newline] @ ''User Request:'' @ [newline] @ userInput) =
          None \<and>
          cmd_Wait P
            (promptContent @ [newline, newline] @ ''User Request:'' @ [newline] @ userInput) =
          Some e"
  then show "ExecutePrompt_stdin U P promptContent userInput =
             (([], Some (ExecutionFailed e
                 (stderr P (promptContent @ [newline, newline] @ ''User Request:'' @ [newline] @
                            userInput)))),
              [promptContent @ [newline, newline] @ ''User Request:'' @ [newline] @ userInput])"
    by (simp add: ExecutePrompt_stdin_def Let_def)
next
  fix e
  show "Error (ExecutionFailed e
          (stderr P (promptContent @ [newline, newline] @ ''User Request:'' @ [newline] @
                     userInput))) =
        ''claude code execution failed: '' @ Error e @ [newline] @ ''Stderr: '' @
        stderr P (promptContent @ [newline, newline] @ ''User Request:'' @ [newline] @ userInput)"
    by simp
next
  assume "cmd_StdinPipe P = None \<and> cmd_Start P = None \<and>
          stdin_WriteString P
            (promptContent @ [newline, newline] @ ''User Request:'' @ [newline] @ userInput) =
          None \<and>
          cmd_Wait P
            (promptContent @ [newline, newline] @ ''User Request:'' @ [newline] @ userInput) =
          None \<and>
          stdout P
            (promptContent @ [newline, newline] @ ''User Request:'' @ [newline] @ userInput) = []"
  then show "ExecutePrompt_stdin U P promptContent userInput =
             (([], Some NoResponse),
              [promptContent @ [newline, newline] @ ''User Request:'' @ [newline] @ userInput])"
    by (simp add: ExecutePrompt_stdin_def Let_def)
next
  assume "cmd_StdinPipe P = None \<and> cmd_Start P = None \<and>
          stdin_WriteString P
            (promptContent @ [newline, newline] @ ''User Request:'' @ [newline] @ userInput) =
          None \<and>
          cmd_Wait P
            (promptContent @ [newline, newline] @ ''User Request:'' @ [newline] @ userInput) =
          None \<and>
          stdout P
            (promptContent @ [newline, newline] @ ''User Request:'' @ [newline] @ userInput) \<noteq> []"
  then show "ExecutePrompt_stdin U P promptContent userInput =
             ((TrimSpace U
                 (stdout P (promptContent @ [newline, newline] @ ''User Request:'' @ [newline] @
                            userInput)), None),
              [promptContent @ [newline, newline] @ ''User Request:'' @ [newline] @ userInput])"
    by (simp add: ExecutePrompt_stdin_def Let_def)
next
  show "(snd (ExecutePrompt U P promptContent userInput) \<noteq> None) =
        (cmd_StdinPipe P \<noteq> None \<or> cmd_Start P \<noteq> None \<or>
         stdin_WriteString P
           (promptContent @ [newline, newline] @ ''User Request:'' @ [newline] @ userInput) \<noteq> None \<or>
         cmd_Wait P
           (promptContent @ [newline, newline] @ ''User Request:'' @ [newline] @ userInput) \<noteq> None \<or>
         stdout P
           (promptContent @ [newline, newline] @ ''User Request:'' @ [newline] @ userInput) = [])"
    by (simp add: ExecutePrompt_def ExecutePrompt_stdin_def Let_def split: option.splits)
next
  assume "snd (ExecutePrompt U P promptContent userInput) \<noteq> None"
  then show "fst (ExecutePrompt U P promptContent userInput) = []"
    by (simp add: ExecutePrompt_def ExecutePrompt_stdin_def Let_def split: option.splits if_splits)
qed

text \<open>
  An assistant that prints \<open>Hello\<close> and a newline, one that exits with status 1 after a
  complaint, and one that has closed its standard input.
\<close>

theorem ExecutePrompt_outcomes_witness:
  "ExecutePrompt_stdin ascii_only (answering (''Hello'' @ [newline])) ''Summarise.'' ''the notes'' =
     ((''Hello'', None),
      [''Summarise.'' @ [newline, newline] @ ''User Request:'' @ [newline] @ ''the notes''])
   \<and> ExecutePrompt_stdin ascii_only crashes ''Summarise.'' ''the notes'' =
     (([], Some (ExecutionFailed exit_status_1 ''not logged in'')),
      [''Summarise.'' @ [newline, newline] @ ''User Request:'' @ [newline] @ ''the notes''])
   \<and> ExecutePrompt_stdin ascii_only hangs_up ''Summarise.'' ''the notes'' =
     (([], Some (WritePromptFailed broken_pipe)), [])"
  using ExecutePrompt_outcomes
      [of "''Summarise.''" "''the notes''" ascii_only "answering (''Hello'' @ [newline])"]
    ExecutePrompt_outcomes [of "''Summarise.''" "''the notes''" ascii_only crashes]
    ExecutePrompt_outcomes [of "''Summarise.''" "''the notes''" ascii_only hangs_up]
  by (simp add: Let_def answering_def crashes_def hangs_up_def TrimSpace_Hello)

text \<open>
  The claim as it was written names three failures and says that otherwise the captured
  standard output is returned. An assistant that starts and would exit with status 0 and
  a greeting on its standard output, but has closed its standard input, makes the call
  fail; and of the output \<open>Hello\<close> with its newline the call returns \<open>Hello\<close> only.
\<close>

theorem ExecutePrompt_counterexample:
  "cmd_Start hangs_up = None
   \<and> cmd_Wait hangs_up
       (''Summarise.'' @ [newline, newline] @ ''User Request:'' @ [newline] @ ''the notes'') = None
   \<and> stdout hangs_up
       (''Summarise.'' @ [newline, newline] @ ''User Request:'' @ [newline] @ ''the notes'') \<noteq> []
   \<and> ExecutePrompt ascii_only hangs_up ''Summarise.'' ''the notes'' =
       ([], Some (WritePromptFailed broken_pipe))
   \<and> stdout (answering (''Hello'' @ [newline]))
       (''Summarise.'' @ [newline, newline] @ ''User Request:'' @ [newline] @ ''the notes'') =
       ''Hello'' @ [newline]
   \<and> ExecutePrompt ascii_only (answering (''Hello'' @ [newline])) ''Summarise.'' ''the notes'' =
       (''Hello'', None)
   \<and> ''Hello'' \<noteq> ''Hello'' @ [newline]"
  by (simp add: ExecutePrompt_def ExecutePrompt_stdin_def Let_def answering_def hangs_up_def
      TrimSpace_Hello)

section \<open>The commands without a provider\<close>





lemma ToLower_query: "ToLower ascii_only ''sales discovery'' = ''sales discovery''"
  by (simp add: lower_defs)

lemma scenario_find:
  "FindPrompt ascii_only scenario_fs ''.'' ''sales discovery'' =
     Inr \<lparr>Name = ''Sales Discovery'', FileName = ''Sales_Discovery.md'',
          Path = ''10_PromptTemplates/Sales_Discovery.md'',
          Description = ''Discover Needs''\<rparr>"
  by (simp add: FindPrompt_def scenario_list TrimSpace_examples ToLower_examples
      ToLower_query Let_def)

lemma scenario_read:
  "ReadFile scenario_fs ''10_PromptTemplates/Sales_Discovery.md'' = Inr sales_content"
  by (simp add: scenario_fs_def fs_defs)

lemma scenario_gather:
  assumes "Stdin_CharDevice S = Inr True" and "\<not> discoverFiles S" and "inputFiles S = []"
    and "Prompt_input S = Inr ''the notes''"
  shows "runPromptRun_gather ascii_only scenario_fs S ''sales discovery'' =
           Inr (\<lparr>Name = ''Sales Discovery'', FileName = ''Sales_Discovery.md'',
                 Path = ''10_PromptTemplates/Sales_Discovery.md'',
                 Description = ''Discover Needs''\<rparr>, sales_content, ''the notes'')"
  using assms
  by (simp add: runPromptRun_gather_def scenario_find scenario_read runPromptRun_files_def
      Let_def)

lemma answering_Hello:
  "ExecutePrompt ascii_only (answering (''Hello'' @ [newline])) promptContent userInput =
     (''Hello'', None)"
  by (simp add: ExecutePrompt_def ExecutePrompt_stdin_def Let_def answering_def TrimSpace_Hello)

lemma HasPrefix_Cons:
  "HasPrefix s [] = True"
  "HasPrefix [] (p # ps) = False"
  "HasPrefix (c # cs) (p # ps) = (c = p \<and> HasPrefix cs ps)"
  by (auto simp: HasPrefix_def)







lemma runPromptRun_gather_steps:
  "FindPrompt U F ''.'' promptName = Inl e \<Longrightarrow>
     runPromptRun_gather U F S promptName = Inl e"
  "FindPrompt U F ''.'' promptName = Inr prompt \<Longrightarrow> ReadFile F (Path prompt) = Inl e \<Longrightarrow>
     runPromptRun_gather U F S promptName = Inl (ReadPromptFileFailed e)"
  "FindPrompt U F ''.'' promptName = Inr prompt \<Longrightarrow> ReadFile F (Path prompt) = Inr body \<Longrightarrow>
   Stdin_CharDevice S = Inr False \<Longrightarrow> Stdin_ReadAll S = Inl e \<Longrightarrow>
     runPromptRun_gather U F S promptName = Inl (ReadStdinFailed e)"
  "FindPrompt U F ''.'' promptName = Inr prompt \<Longrightarrow> ReadFile F (Path prompt) = Inr body \<Longrightarrow>
   Stdin_CharDevice S = Inr True \<Longrightarrow> \<not> discoverFiles S \<Longrightarrow> inputFiles S \<noteq> [] \<Longrightarrow>
   FormatFileContext F (inputFiles S) = (context, Some e) \<Longrightarrow>
     runPromptRun_gather U F S promptName = Inl (ReadContextFilesFailed e)"
  "FindPrompt U F ''.'' promptName = Inr prompt \<Longrightarrow> ReadFile F (Path prompt) = Inr body \<Longrightarrow>
   Stdin_CharDevice S = Inr True \<Longrightarrow> \<not> discoverFiles S \<Longrightarrow> inputFiles S = [] \<Longrightarrow>
   Prompt_input S = Inl e \<Longrightarrow>
     runPromptRun_gather U F S promptName = Inl (InputPromptFailed e)"
  "FindPrompt U F ''.'' promptName = Inr prompt \<Longrightarrow> ReadFile F (Path prompt) = Inr body \<Longrightarrow>
   Stdin_CharDevice S = Inr True \<Longrightarrow> \<not> discoverFiles S \<Longrightarrow> inputFiles S = [] \<Longrightarrow>
   Prompt_input S = Inr input \<Longrightarrow>
     runPromptRun_gather U F S promptName = Inr (prompt, body, input)"
  by (simp_all add: runPromptRun_gather_def runPromptRun_files_def Let_def)




section \<open>Steps that the user declines\<close>







lemma scenario_session_gather:
  assumes "Getenv S ''OPENROUTER_API_KEY'' = []" and "claude_IsAvailable S"
    and "Select_template S [''Sales Discovery''] = Inr 0"
    and "Prompt_input S = Inr ''the notes''"
  shows "runPrompt_gather scenario_fs S =
           Inr (True, [], ''Sales_Discovery.md'', sales_content, ''the notes'')"
  using assms
  by (simp add: runPrompt_gather_def scenario_fs_def fs_defs string_defs Let_def)


lemma answering_ExecutePrompt:
  "ExecutePrompt ascii_only (answering out) promptContent userInput =
     (if out = [] then ([], Some NoResponse) else (TrimSpace ascii_only out, None))"
  by (simp add: ExecutePrompt_def ExecutePrompt_stdin_def Let_def answering_def)

lemma runPrompt_gather_reached:
  assumes "Getenv S ''OPENROUTER_API_KEY'' \<noteq> [] \<or> claude_IsAvailable S"
    and "\<not> Stat_IsNotExist F (Join F [''.'', ''10_PromptTemplates''])"
    and "ReadDir F (Join F [''.'', ''10_PromptTemplates'']) = Inr entries"
    and "Select_template S
           (map (\<lambda>file. TrimSuffix (ReplaceAll file (CHR ''_'') (CHR '' '')) ''.md'')
              (map entry_Name
                 (filter (\<lambda>entry. \<not> entry_IsDir entry \<and> HasSuffix (entry_Name entry) ''.md'')
                    entries))) = Inr idx"
    and "idx < length (map entry_Name
                 (filter (\<lambda>entry. \<not> entry_IsDir entry \<and> HasSuffix (entry_Name entry) ''.md'')
                    entries))"
    and "ReadFile F (Join F [Join F [''.'', ''10_PromptTemplates''],
           map entry_Name
             (filter (\<lambda>entry. \<not> entry_IsDir entry \<and> HasSuffix (entry_Name entry) ''.md'')
                entries) ! idx]) = Inr body"
  shows "Prompt_input S = Inl e \<Longrightarrow> runPrompt_gather F S = Inl (InputPromptFailed e)"
    and "Prompt_input S = Inr input \<Longrightarrow>
         runPrompt_gather F S =
           Inr (claude_IsAvailable S, Getenv S ''OPENROUTER_API_KEY'',
                map entry_Name
                  (filter (\<lambda>entry. \<not> entry_IsDir entry \<and> HasSuffix (entry_Name entry) ''.md'')
                     entries) ! idx,
                body, input)"
proof -
  have ne: "filter (\<lambda>entry. \<not> entry_IsDir entry \<and> HasSuffix (entry_Name entry) ''.md'') entries \<noteq> []"
    using assms(5) by auto
  show "Prompt_input S = Inl e \<Longrightarrow> runPrompt_gather F S = Inl (InputPromptFailed e)"
    using assms(1,2,4,5,6) ne by (auto simp: runPrompt_gather_def Let_def assms(3))
  show "Prompt_input S = Inr input \<Longrightarrow>
         runPrompt_gather F S =
           Inr (claude_IsAvailable S, Getenv S ''OPENROUTER_API_KEY'',
                map entry_Name
                  (filter (\<lambda>entry. \<not> entry_IsDir entry \<and> HasSuffix (entry_Name entry) ''.md'')
                     entries) ! idx,
                body, input)"
    using assms(1,2,4,5,6) ne by (auto simp: runPrompt_gather_def Let_def assms(3))
qed

lemma runPrompt_backend_succeeds:
  assumes "(if claude_IsAvailable S then ExecutePrompt U (claude S) body input
            else openrouter_ExecutePrompt S (Getenv S ''OPENROUTER_API_KEY'') body input) =
           (result, None)"
  shows "runPrompt_backend U S (claude_IsAvailable S) (Getenv S ''OPENROUTER_API_KEY'') body input =
           Inr result"
  using assms by (cases "claude_IsAvailable S") (simp_all add: runPrompt_backend_def)




section \<open>The file that is saved\<close>

lemma savePromptOutput_written:
  assumes "MkdirAll F (Dir F outPath) = None"
    and "WriteFile F outPath (savePromptOutput_content S name input response) = None"
  shows "savePromptOutput F S projectRoot name input response outPath =
           (None, F\<lparr>ReadFile := (ReadFile F)(outPath :=
                     Inr (savePromptOutput_content S name input response))\<rparr>)"
  using assms by (simp add: savePromptOutput_def os_WriteFile_def Let_def)

lemma savePromptOutput_read_back:
  assumes "fst (savePromptOutput F S projectRoot name input response outPath) = None"
  shows "ReadFile (snd (savePromptOutput F S projectRoot name input response outPath)) outPath =
           Inr (savePromptOutput_content S name input response)"
proof (cases "MkdirAll F (Dir F outPath)")
  case (Some err)
  then show ?thesis using assms by (simp add: savePromptOutput_def Let_def)
next
  case None
  show ?thesis
  proof (cases "WriteFile F outPath (savePromptOutput_content S name input response)")
    case (Some err)
    then show ?thesis using assms None
      by (simp add: savePromptOutput_def os_WriteFile_def Let_def)
  next
    case written: None
    show ?thesis
      by (simp add: savePromptOutput_written [OF None written])
  qed
qed

lemma savePromptOutputInteractive_written:
  assumes "Select_location S = Inr locIdx" and "choose_savePath S locIdx = Some savePath"
    and "Prompt_filename S (ReplaceAll name (CHR '' '') (CHR ''_'') @ ''_'' @ Now_date S) =
           Inr filename"
    and "MkdirAll F (Dir F (Join F [projectRoot, savePath, filename @ ''.md''])) = None"
    and "WriteFile F (Join F [projectRoot, savePath, filename @ ''.md''])
           (savePromptOutput_content S name input response) = None"
  shows "savePromptOutputInteractive F S projectRoot name input response =
           (None, F\<lparr>ReadFile := (ReadFile F)(Join F [projectRoot, savePath, filename @ ''.md''] :=
                     Inr (savePromptOutput_content S name input response))\<rparr>)"
proof -
  have "savePromptOutputInteractive F S projectRoot name input response =
        savePromptOutput F S projectRoot name input response
          (Join F [projectRoot, savePath, filename @ ''.md''])"
    using assms(1,2,3) by (simp add: savePromptOutputInteractive_def Let_def)
  then show ?thesis
    by (simp add: savePromptOutput_written [OF assms(4,5)])
qed

lemma runPrompt_save_written:
  assumes "Prompt_save S = Inr yes" and "Select_location S = Inr locIdx"
    and "choose_savePath S locIdx = Some savePath"
    and "Prompt_filename S (TrimSuffix selectedPrompt ''.md'' @ ''_'' @ Now_date S) = Inr filename"
    and "MkdirAll F (Dir F (Join F [''.'', savePath, filename @ ''.md''])) = None"
    and "WriteFile F (Join F [''.'', savePath, filename @ ''.md''])
           (runPrompt_outputContent S filename selectedPrompt userInput result) = None"
  shows "runPrompt_save F S selectedPrompt userInput result =
           (None, F\<lparr>ReadFile := (ReadFile F)(Join F [''.'', savePath, filename @ ''.md''] :=
                     Inr (runPrompt_outputContent S filename selectedPrompt userInput result))\<rparr>)"
  using assms by (simp add: runPrompt_save_def os_WriteFile_def Let_def)

lemma runPromptRun_executed:
  assumes "runPromptRun_gather U F S promptName = Inr (prompt, body, fullInput)"
    and "useClaudeCode S" and "claude_IsAvailable S"
    and "ExecutePrompt U (claude S) body fullInput = (response, None)"
    and "runPromptRun_save F S ''.'' (Name prompt) fullInput response = (None, F')"
  shows "runPromptRun U F S promptName =
           \<lparr>returned = None, executed = [(body, fullInput)], disk = F'\<rparr>"
  using assms by (simp add: runPromptRun_def)

lemma runPrompt_executed:
  assumes "runPrompt_gather F S = Inr (useClaude, apiKey, selectedPrompt, body, input)"
    and "runPrompt_backend U S useClaude apiKey body input = Inr response"
    and "runPrompt_save F S selectedPrompt input response = (None, F')"
  shows "runPrompt U F S = \<lparr>returned = None, executed = [(body, input)], disk = F'\<rparr>"
  using assms by (simp add: runPrompt_def)

text \<open>
  Claim C2, as amended. There are two layouts. A save of the \<open>run\<close> command, to the path
  given with \<open>--output\<close> or to the path chosen in its save dialogue, leaves a file that
  reads back as: title (the display name of the template), date, template name, a section
  \<open>Input\<close> with the input verbatim and a section \<open>Response\<close> with the response verbatim;
  there is no model identifier in it. A save of the interactive session leaves a file that
  reads back as: title (the file name entered, with spaces for underscores), date, file
  name of the template, model identifier, a section \<open>User Input\<close> with the input verbatim
  and a section \<open>Response\<close> with the response verbatim. This holds for every input and
  every response, whenever the directory can be made and the file can be written; the
  command then returns no error.
\<close>

theorem saved_layout:
  "savePromptOutput_content S name input response =
     ''# '' @ name @ [newline, newline] @
     ''**Date:** '' @ Now_stamp S @ [newline] @
     ''**Prompt:** '' @ name @ [newline, newline] @
     ''## Input'' @ [newline, newline] @
     input @ [newline, newline] @
     ''## Response'' @ [newline, newline] @
     response @ [newline]
   \<and> runPrompt_outputContent S filename selectedPrompt input response =
     ''# '' @ ReplaceAll filename (CHR ''_'') (CHR '' '') @ [newline, newline] @
     ''**Date:** '' @ Now_stamp S @ [newline] @
     ''**Prompt Template:** '' @ selectedPrompt @ [newline] @
     ''**Model:** google/gemini-2.0-flash-exp:free'' @ [newline, newline] @
     ''## User Input'' @ [newline, newline] @
     input @ [newline, newline] @
     ''## Response'' @ [newline, newline] @
     response @ [newline]
   \<and> (MkdirAll F (Dir F outPath) = None \<and>
      WriteFile F outPath (savePromptOutput_content S name input response) = None \<longrightarrow>
      savePromptOutput F S projectRoot name input response outPath =
        (None, F\<lparr>ReadFile := (ReadFile F)(outPath :=
                  Inr (savePromptOutput_content S name input response))\<rparr>))
   \<and> (fst (savePromptOutput F S projectRoot name input response outPath) = None \<longrightarrow>
      ReadFile (snd (savePromptOutput F S projectRoot name input response outPath)) outPath =
        Inr (savePromptOutput_content S name input response))
   \<and> (runPromptRun_gather U F S promptName = Inr (prompt, body, input) \<and>
      useClaudeCode S \<and> claude_IsAvailable S \<and>
      ExecutePrompt U (claude S) body input = (response, None) \<and>
      outputPath S \<noteq> [] \<and>
      MkdirAll F (Dir F (outputPath S)) = None \<and>
      WriteFile F (outputPath S) (savePromptOutput_content S (Name prompt) input response) =
        None \<longrightarrow>
      runPromptRun U F S promptName =
        \<lparr>returned = None, executed = [(body, input)],
         disk = F\<lparr>ReadFile := (ReadFile F)(outputPath S :=
                  Inr (savePromptOutput_content S (Name prompt) input response))\<rparr>\<rparr>)
   \<and> (FindPrompt U F ''.'' promptName = Inr prompt \<and>
      ReadFile F (Path prompt) = Inr body \<and>
      Stdin_CharDevice S = Inr True \<and> \<not> discoverFiles S \<and> inputFiles S = [] \<and>
      Prompt_input S = Inr input \<and>
      useClaudeCode S \<and> claude_IsAvailable S \<and>
      ExecutePrompt U (claude S) body input = (response, None) \<and>
      outputPath S \<noteq> [] \<and>
      MkdirAll F (Dir F (outputPath S)) = None \<and>
      WriteFile F (outputPath S) (savePromptOutput_content S (Name prompt) input response) =
        None \<longrightarrow>
      runPromptRun U F S promptName =
        \<lparr>returned = None, executed = [(body, input)],
         disk = F\<lparr>ReadFile := (ReadFile F)(outputPath S :=
                  Inr (''# '' @ Name prompt @ [newline, newline] @
                       ''**Date:** '' @ Now_stamp S @ [newline] @
                       ''**Prompt:** '' @ Name prompt @ [newline, newline] @
                       ''## Input'' @ [newline, newline] @
                       input @ [newline, newline] @
                       ''## Response'' @ [newline, newline] @
                       response @ [newline]))\<rparr>\<rparr>)
   \<and> (FindPrompt U F ''.'' promptName = Inr prompt \<and>
      ReadFile F (Path prompt) = Inr body \<and>
      Stdin_CharDevice S = Inr True \<and> \<not> discoverFiles S \<and> inputFiles S = [] \<and>
      Prompt_input S = Inr input \<and>
      useClaudeCode S \<and> claude_IsAvailable S \<and>
      ExecutePrompt U (claude S) body input = (response, None) \<and>
      outputPath S = [] \<and> saveOutput S \<and> Prompt_save S = Inr yes \<and>
      Select_location S = Inr locIdx \<and> choose_savePath S locIdx = Some savePath \<and>
      Prompt_filename S (ReplaceAll (Name prompt) (CHR '' '') (CHR ''_'') @ ''_'' @ Now_date S) =
        Inr filename \<and>
      MkdirAll F (Dir F (Join F [''.'', savePath, filename @ ''.md''])) = None \<and>
      WriteFile F (Join F [''.'', savePath, filename @ ''.md''])
        (savePromptOutput_content S (Name prompt) input response) = None \<longrightarrow>
      runPromptRun U F S promptName =
        \<lparr>returned = None, executed = [(body, input)],
         disk = F\<lparr>ReadFile := (ReadFile F)(Join F [''.'', savePath, filename @ ''.md''] :=
                  Inr (''# '' @ Name prompt @ [newline, newline] @
                       ''**Date:** '' @ Now_stamp S @ [newline] @
                       ''**Prompt:** '' @ Name prompt @ [newline, newline] @
                       ''## Input'' @ [newline, newline] @
                       input @ [newline, newline] @
                       ''## Response'' @ [newline, newline] @
                       response @ [newline]))\<rparr>\<rparr>)
   \<and> ((Getenv S ''OPENROUTER_API_KEY'' \<noteq> [] \<or> claude_IsAvailable S) \<and>
      \<not> Stat_IsNotExist F (Join F [''.'', ''10_PromptTemplates'']) \<and>
      ReadDir F (Join F [''.'', ''10_PromptTemplates'']) = Inr entries \<and>
      Select_template S
        (map (\<lambda>file. TrimSuffix (ReplaceAll file (CHR ''_'') (CHR '' '')) ''.md'')
           (map entry_Name
              (filter (\<lambda>entry. \<not> entry_IsDir entry \<and> HasSuffix (entry_Name entry) ''.md'')
                 entries))) = Inr idx \<and>
      idx < length (map entry_Name
              (filter (\<lambda>entry. \<not> entry_IsDir entry \<and> HasSuffix (entry_Name entry) ''.md'')
                 entries)) \<and>
      map entry_Name
        (filter (\<lambda>entry. \<not> entry_IsDir entry \<and> HasSuffix (entry_Name entry) ''.md'')
           entries) ! idx = selectedPrompt \<and>
      ReadFile F (Join F [Join F [''.'', ''10_PromptTemplates''], selectedPrompt]) = Inr body \<and>
      Prompt_input S = Inr input \<and>
      (if claude_IsAvailable S then ExecutePrompt U (claude S) body input
       else openrouter_ExecutePrompt S (Getenv S ''OPENROUTER_API_KEY'') body input) =
        (response, None) \<and>
      Prompt_save S = Inr yes \<and>
      Select_location S = Inr locIdx \<and> choose_savePath S locIdx = Some savePath \<and>
      Prompt_filename S (TrimSuffix selectedPrompt ''.md'' @ ''_'' @ Now_date S) = Inr filename \<and>
      MkdirAll F (Dir F (Join F [''.'', savePath, filename @ ''.md''])) = None \<and>
      WriteFile F (Join F [''.'', savePath, filename @ ''.md''])
        (runPrompt_outputContent S filename selectedPrompt input response) = None \<longrightarrow>
      runPrompt U F S =
        \<lparr>returned = None, executed = [(body, input)],
         disk = F\<lparr>ReadFile := (ReadFile F)(Join F [''.'', savePath, filename @ ''.md''] :=
                  Inr (''# '' @ ReplaceAll filename (CHR ''_'') (CHR '' '') @ [newline, newline] @
                       ''**Date:** '' @ Now_stamp S @ [newline] @
                       ''**Prompt Template:** '' @ selectedPrompt @ [newline] @
                       ''**Model:** google/gemini-2.0-flash-exp:free'' @ [newline, newline] @
                       ''## User Input'' @ [newline, newline] @
                       input @ [newline, newline] @
                       ''## Response'' @ [newline, newline] @
                       response @ [newline]))\<rparr>\<rparr>)
   \<and> (runPromptRun_gather U F S promptName = Inr (prompt, body, input) \<and>
      useClaudeCode S \<and> claude_IsAvailable S \<and>
      ExecutePrompt U (claude S) body input = (response, None) \<and>
      outputPath S = [] \<and> saveOutput S \<and> Prompt_save S = Inr yes \<and>
      Select_location S = Inr locIdx \<and> choose_savePath S locIdx = Some savePath \<and>
      Prompt_filename S (ReplaceAll (Name prompt) (CHR '' '') (CHR ''_'') @ ''_'' @ Now_date S) =
        Inr filename \<and>
      MkdirAll F (Dir F (Join F [''.'', savePath, filename @ ''.md''])) = None \<and>
      WriteFile F (Join F [''.'', savePath, filename @ ''.md''])
        (savePromptOutput_content S (Name prompt) input response) = None \<longrightarrow>
      runPromptRun U F S promptName =
        \<lparr>returned = None, executed = [(body, input)],
         disk = F\<lparr>ReadFile := (ReadFile F)(Join F [''.'', savePath, filename @ ''.md''] :=
                  Inr (savePromptOutput_content S (Name prompt) input response))\<rparr>\<rparr>)"
proof (intro conjI impI)
  show "savePromptOutput_content S name input response =
     ''# '' @ name @ [newline, newline] @
     ''**Date:** '' @ Now_stamp S @ [newline] @
     ''**Prompt:** '' @ name @ [newline, newline] @
     ''## Input'' @ [newline, newline] @
     input @ [newline, newline] @
     ''## Response'' @ [newline, newline] @
     response @ [newline]"
    by (simp add: savePromptOutput_content_def)
next
  show "runPrompt_outputContent S filename selectedPrompt input response =
     ''# '' @ ReplaceAll filename (CHR ''_'') (CHR '' '') @ [newline, newline] @
     ''**Date:** '' @ Now_stamp S @ [newline] @
     ''**Prompt Template:** '' @ selectedPrompt @ [newline] @
     ''**Model:** google/gemini-2.0-flash-exp:free'' @ [newline, newline] @
     ''## User Input'' @ [newline, newline] @
     input @ [newline, newline] @
     ''## Response'' @ [newline, newline] @
     response @ [newline]"
    by (simp add: runPrompt_outputContent_def)
next
  assume "MkdirAll F (Dir F outPath) = None \<and>
      WriteFile F outPath (savePromptOutput_content S name input response) = None"
  then show "savePromptOutput F S projectRoot name input response outPath =
        (None, F\<lparr>ReadFile := (ReadFile F)(outPath :=
                  Inr (savePromptOutput_content S name input response))\<rparr>)"
    by (elim conjE) (rule savePromptOutput_written)
next
  assume "fst (savePromptOutput F S projectRoot name input response outPath) = None"
  then show "ReadFile (snd (savePromptOutput F S projectRoot name input response outPath))
               outPath = Inr (savePromptOutput_content S name input response)"
    by (rule savePromptOutput_read_back)
next
  assume a: "runPromptRun_gather U F S promptName = Inr (prompt, body, input) \<and>
      useClaudeCode S \<and> claude_IsAvailable S \<and>
      ExecutePrompt U (claude S) body input = (response, None) \<and>
      outputPath S \<noteq> [] \<and>
      MkdirAll F (Dir F (outputPath S)) = None \<and>
      WriteFile F (outputPath S) (savePromptOutput_content S (Name prompt) input response) =
        None"
  have "savePromptOutput F S ''.'' (Name prompt) input response (outputPath S) =
          (None, F\<lparr>ReadFile := (ReadFile F)(outputPath S :=
                    Inr (savePromptOutput_content S (Name prompt) input response))\<rparr>)"
    using a by (elim conjE) (rule savePromptOutput_written)
  then have s: "runPromptRun_save F S ''.'' (Name prompt) input response =
          (None, F\<lparr>ReadFile := (ReadFile F)(outputPath S :=
                    Inr (savePromptOutput_content S (Name prompt) input response))\<rparr>)"
    using a by (simp add: runPromptRun_save_def)
  show "runPromptRun U F S promptName =
        \<lparr>returned = None, executed = [(body, input)],
         disk = F\<lparr>ReadFile := (ReadFile F)(outputPath S :=
                  Inr (savePromptOutput_content S (Name prompt) input response))\<rparr>\<rparr>"
    using a s by (elim conjE) (rule runPromptRun_executed)
next
  assume a: "FindPrompt U F ''.'' promptName = Inr prompt \<and>
      ReadFile F (Path prompt) = Inr body \<and>
      Stdin_CharDevice S = Inr True \<and> \<not> discoverFiles S \<and> inputFiles S = [] \<and>
      Prompt_input S = Inr input \<and>
      useClaudeCode S \<and> claude_IsAvailable S \<and>
      ExecutePrompt U (claude S) body input = (response, None) \<and>
      outputPath S \<noteq> [] \<and>
      MkdirAll F (Dir F (outputPath S)) = None \<and>
      WriteFile F (outputPath S) (savePromptOutput_content S (Name prompt) input response) =
        None"
  have g: "runPromptRun_gather U F S promptName = Inr (prompt, body, input)"
    using a by (elim conjE) (rule runPromptRun_gather_steps(6))
  have "savePromptOutput F S ''.'' (Name prompt) input response (outputPath S) =
          (None, F\<lparr>ReadFile := (ReadFile F)(outputPath S :=
                    Inr (savePromptOutput_content S (Name prompt) input response))\<rparr>)"
    using a by (elim conjE) (rule savePromptOutput_written)
  then have s: "runPromptRun_save F S ''.'' (Name prompt) input response =
          (None, F\<lparr>ReadFile := (ReadFile F)(outputPath S :=
                    Inr (savePromptOutput_content S (Name prompt) input response))\<rparr>)"
    using a by (simp add: runPromptRun_save_def)
  have "runPromptRun U F S promptName =
        \<lparr>returned = None, executed = [(body, input)],
         disk = F\<lparr>ReadFile := (ReadFile F)(outputPath S :=
                  Inr (savePromptOutput_content S (Name prompt) input response))\<rparr>\<rparr>"
    using g a s by (elim conjE) (rule runPromptRun_executed)
  then show "runPromptRun U F S promptName =
        \<lparr>returned = None, executed = [(body, input)],
         disk = F\<lparr>ReadFile := (ReadFile F)(outputPath S :=
                  Inr (''# '' @ Name prompt @ [newline, newline] @
                       ''**Date:** '' @ Now_stamp S @ [newline] @
                       ''**Prompt:** '' @ Name prompt @ [newline, newline] @
                       ''## Input'' @ [newline, newline] @
                       input @ [newline, newline] @
                       ''## Response'' @ [newline, newline] @
                       response @ [newline]))\<rparr>\<rparr>"
    by (simp add: savePromptOutput_content_def)
next
  assume a: "FindPrompt U F ''.'' promptName = Inr prompt \<and>
      ReadFile F (Path prompt) = Inr body \<and>
      Stdin_CharDevice S = Inr True \<and> \<not> discoverFiles S \<and> inputFiles S = [] \<and>
      Prompt_input S = Inr input \<and>
      useClaudeCode S \<and> claude_IsAvailable S \<and>
      ExecutePrompt U (claude S) body input = (response, None) \<and>
      outputPath S = [] \<and> saveOutput S \<and> Prompt_save S = Inr yes \<and>
      Select_location S = Inr locIdx \<and> choose_savePath S locIdx = Some savePath \<and>
      Prompt_filename S (ReplaceAll (Name prompt) (CHR '' '') (CHR ''_'') @ ''_'' @ Now_date S) =
        Inr filename \<and>
      MkdirAll F (Dir F (Join F [''.'', savePath, filename @ ''.md''])) = None \<and>
      WriteFile F (Join F [''.'', savePath, filename @ ''.md''])
        (savePromptOutput_content S (Name prompt) input response) = None"
  have g: "runPromptRun_gather U F S promptName = Inr (prompt, body, input)"
    using a by (elim conjE) (rule runPromptRun_gather_steps(6))
  have "savePromptOutputInteractive F S ''.'' (Name prompt) input response =
          (None, F\<lparr>ReadFile := (ReadFile F)(Join F [''.'', savePath, filename @ ''.md''] :=
                    Inr (savePromptOutput_content S (Name prompt) input response))\<rparr>)"
    using a by (elim conjE) (rule savePromptOutputInteractive_written)
  then have s: "runPromptRun_save F S ''.'' (Name prompt) input response =
          (None, F\<lparr>ReadFile := (ReadFile F)(Join F [''.'', savePath, filename @ ''.md''] :=
                    Inr (savePromptOutput_content S (Name prompt) input response))\<rparr>)"
    using a by (simp add: runPromptRun_save_def)
  have "runPromptRun U F S promptName =
        \<lparr>returned = None, executed = [(body, input)],
         disk = F\<lparr>ReadFile := (ReadFile F)(Join F [''.'', savePath, filename @ ''.md''] :=
                  Inr (savePromptOutput_content S (Name prompt) input response))\<rparr>\<rparr>"
    using g a s by (elim conjE) (rule runPromptRun_executed)
  then show "runPromptRun U F S promptName =
        \<lparr>returned = None, executed = [(body, input)],
         disk = F\<lparr>ReadFile := (ReadFile F)(Join F [''.'', savePath, filename @ ''.md''] :=
                  Inr (''# '' @ Name prompt @ [newline, newline] @
                       ''**Date:** '' @ Now_stamp S @ [newline] @
                       ''**Prompt:** '' @ Name prompt @ [newline, newline] @
                       ''## Input'' @ [newline, newline] @
                       input @ [newline, newline] @
                       ''## Response'' @ [newline, newline] @
                       response @ [newline]))\<rparr>\<rparr>"
    by (simp add: savePromptOutput_content_def)
next
  assume a: "(Getenv S ''OPENROUTER_API_KEY'' \<noteq> [] \<or> claude_IsAvailable S) \<and>
      \<not> Stat_IsNotExist F (Join F [''.'', ''10_PromptTemplates'']) \<and>
      ReadDir F (Join F [''.'', ''10_PromptTemplates'']) = Inr entries \<and>
      Select_template S
        (map (\<lambda>file. TrimSuffix (ReplaceAll file (CHR ''_'') (CHR '' '')) ''.md'')
           (map entry_Name
              (filter (\<lambda>entry. \<not> entry_IsDir entry \<and> HasSuffix (entry_Name entry) ''.md'')
                 entries))) = Inr idx \<and>
      idx < length (map entry_Name
              (filter (\<lambda>entry. \<not> entry_IsDir entry \<and> HasSuffix (entry_Name entry) ''.md'')
                 entries)) \<and>
      map entry_Name
        (filter (\<lambda>entry. \<not> entry_IsDir entry \<and> HasSuffix (entry_Name entry) ''.md'')
           entries) ! idx = selectedPrompt \<and>
      ReadFile F (Join F [Join F [''.'', ''10_PromptTemplates''], selectedPrompt]) = Inr body \<and>
      Prompt_input S = Inr input \<and>
      (if claude_IsAvailable S then ExecutePrompt U (claude S) body input
       else openrouter_ExecutePrompt S (Getenv S ''OPENROUTER_API_KEY'') body input) =
        (response, None) \<and>
      Prompt_save S = Inr yes \<and>
      Select_location S = Inr locIdx \<and> choose_savePath S locIdx = Some savePath \<and>
      Prompt_filename S (TrimSuffix selectedPrompt ''.md'' @ ''_'' @ Now_date S) = Inr filename \<and>
      MkdirAll F (Dir F (Join F [''.'', savePath, filename @ ''.md''])) = None \<and>
      WriteFile F (Join F [''.'', savePath, filename @ ''.md''])
        (runPrompt_outputContent S filename selectedPrompt input response) = None"
  have sel: "map entry_Name
        (filter (\<lambda>entry. \<not> entry_IsDir entry \<and> HasSuffix (entry_Name entry) ''.md'')
           entries) ! idx = selectedPrompt"
    using a by (elim conjE)
  have r: "ReadFile F (Join F [Join F [''.'', ''10_PromptTemplates''],
             map entry_Name
               (filter (\<lambda>entry. \<not> entry_IsDir entry \<and> HasSuffix (entry_Name entry) ''.md'')
                  entries) ! idx]) = Inr body"
    unfolding sel using a by (elim conjE)
  have "runPrompt_gather F S =
           Inr (claude_IsAvailable S, Getenv S ''OPENROUTER_API_KEY'',
                map entry_Name
                  (filter (\<lambda>entry. \<not> entry_IsDir entry \<and> HasSuffix (entry_Name entry) ''.md'')
                     entries) ! idx,
                body, input)"
    using a r by (elim conjE) (rule runPrompt_gather_reached(2))
  then have g: "runPrompt_gather F S =
           Inr (claude_IsAvailable S, Getenv S ''OPENROUTER_API_KEY'', selectedPrompt, body, input)"
    unfolding sel .
  have b: "runPrompt_backend U S (claude_IsAvailable S) (Getenv S ''OPENROUTER_API_KEY'')
             body input = Inr response"
    using a by (elim conjE) (rule runPrompt_backend_succeeds)
  have s: "runPrompt_save F S selectedPrompt input response =
           (None, F\<lparr>ReadFile := (ReadFile F)(Join F [''.'', savePath, filename @ ''.md''] :=
                     Inr (runPrompt_outputContent S filename selectedPrompt input response))\<rparr>)"
    using a by (elim conjE) (rule runPrompt_save_written)
  have "runPrompt U F S =
        \<lparr>returned = None, executed = [(body, input)],
         disk = F\<lparr>ReadFile := (ReadFile F)(Join F [''.'', savePath, filename @ ''.md''] :=
                  Inr (runPrompt_outputContent S filename selectedPrompt input response))\<rparr>\<rparr>"
    using g b s by (rule runPrompt_executed)
  then show "runPrompt U F S =
        \<lparr>returned = None, executed = [(body, input)],
         disk = F\<lparr>ReadFile := (ReadFile F)(Join F [''.'', savePath, filename @ ''.md''] :=
                  Inr (''# '' @ ReplaceAll filename (CHR ''_'') (CHR '' '') @ [newline, newline] @
                       ''**Date:** '' @ Now_stamp S @ [newline] @
                       ''**Prompt Template:** '' @ selectedPrompt @ [newline] @
                       ''**Model:** google/gemini-2.0-flash-exp:free'' @ [newline, newline] @
                       ''## User Input'' @ [newline, newline] @
                       input @ [newline, newline] @
                       ''## Response'' @ [newline, newline] @
                       response @ [newline]))\<rparr>\<rparr>"
    by (simp add: runPrompt_outputContent_def)
next
  assume a: "runPromptRun_gather U F S promptName = Inr (prompt, body, input) \<and>
      useClaudeCode S \<and> claude_IsAvailable S \<and>
      ExecutePrompt U (claude S) body input = (response, None) \<and>
      outputPath S = [] \<and> saveOutput S \<and> Prompt_save S = Inr yes \<and>
      Select_location S = Inr locIdx \<and> choose_savePath S locIdx = Some savePath \<and>
      Prompt_filename S (ReplaceAll (Name prompt) (CHR '' '') (CHR ''_'') @ ''_'' @ Now_date S) =
        Inr filename \<and>
      MkdirAll F (Dir F (Join F [''.'', savePath, filename @ ''.md''])) = None \<and>
      WriteFile F (Join F [''.'', savePath, filename @ ''.md''])
        (savePromptOutput_content S (Name prompt) input response) = None"
  have "savePromptOutputInteractive F S ''.'' (Name prompt) input response =
          (None, F\<lparr>ReadFile := (ReadFile F)(Join F [''.'', savePath, filename @ ''.md''] :=
                    Inr (savePromptOutput_content S (Name prompt) input response))\<rparr>)"
    using a by (elim conjE) (rule savePromptOutputInteractive_written)
  then have s: "runPromptRun_save F S ''.'' (Name prompt) input response =
          (None, F\<lparr>ReadFile := (ReadFile F)(Join F [''.'', savePath, filename @ ''.md''] :=
                    Inr (savePromptOutput_content S (Name prompt) input response))\<rparr>)"
    using a by (simp add: runPromptRun_save_def)
  show "runPromptRun U F S promptName =
        \<lparr>returned = None, executed = [(body, input)],
         disk = F\<lparr>ReadFile := (ReadFile F)(Join F [''.'', savePath, filename @ ''.md''] :=
                  Inr (savePromptOutput_content S (Name prompt) input response))\<rparr>\<rparr>"
    using a s by (elim conjE) (rule runPromptRun_executed)
qed

text \<open>
  In the scenario of the specification, with the input \<open>the notes\<close> and the response
  \<open>Hello\<close>: the \<open>run\<close> command with \<open>--output out/answer.md\<close>, the \<open>run\<close> command with its
  save dialogue, and the interactive session, both saving to the file offered under
  \<open>00_Inbox/notes\<close>.
\<close>

theorem saved_layout_witness:
  "runPromptRun ascii_only scenario_fs to_file ''sales discovery'' =
     \<lparr>returned = None, executed = [(sales_content, ''the notes'')],
      disk = scenario_fs\<lparr>ReadFile := (ReadFile scenario_fs)(''out/answer.md'' :=
        Inr (''# Sales Discovery'' @ [newline, newline] @
             ''**Date:** 2024-05-01 10:00:00'' @ [newline] @
             ''**Prompt:** Sales Discovery'' @ [newline, newline] @
             ''## Input'' @ [newline, newline] @
             ''the notes'' @ [newline, newline] @
             ''## Response'' @ [newline, newline] @
             ''Hello'' @ [newline]))\<rparr>\<rparr>
   \<and> runPromptRun ascii_only scenario_fs desk_session ''sales discovery'' =
     \<lparr>returned = None, executed = [(sales_content, ''the notes'')],
      disk = scenario_fs\<lparr>ReadFile := (ReadFile scenario_fs)
        (''00_Inbox/notes/Sales_Discovery_2024-05-01.md'' :=
        Inr (''# Sales Discovery'' @ [newline, newline] @
             ''**Date:** 2024-05-01 10:00:00'' @ [newline] @
             ''**Prompt:** Sales Discovery'' @ [newline, newline] @
             ''## Input'' @ [newline, newline] @
             ''the notes'' @ [newline, newline] @
             ''## Response'' @ [newline, newline] @
             ''Hello'' @ [newline]))\<rparr>\<rparr>
   \<and> runPrompt ascii_only scenario_fs desk_session =
     \<lparr>returned = None, executed = [(sales_content, ''the notes'')],
      disk = scenario_fs\<lparr>ReadFile := (ReadFile scenario_fs)
        (''00_Inbox/notes/Sales_Discovery_2024-05-01.md'' :=
        Inr (''# Sales Discovery 2024-05-01'' @ [newline, newline] @
             ''**Date:** 2024-05-01 10:00:00'' @ [newline] @
             ''**Prompt Template:** Sales_Discovery.md'' @ [newline] @
             ''**Model:** google/gemini-2.0-flash-exp:free'' @ [newline, newline] @
             ''## User Input'' @ [newline, newline] @
             ''the notes'' @ [newline, newline] @
             ''## Response'' @ [newline, newline] @
             ''Hello'' @ [newline]))\<rparr>\<rparr>"
proof -
  have t: "Stdin_CharDevice to_file = Inr True" "\<not> discoverFiles to_file"
    "inputFiles to_file = []" "Prompt_input to_file = Inr ''the notes''"
    "useClaudeCode to_file" "claude_IsAvailable to_file"
    "outputPath to_file = ''out/answer.md''" "Now_stamp to_file = ''2024-05-01 10:00:00''"
    "ExecutePrompt ascii_only (claude to_file) sales_content ''the notes'' = (''Hello'', None)"
    by (simp_all add: to_file_def desk_session_def answering_ExecutePrompt TrimSpace_Hello)
  have d: "Stdin_CharDevice desk_session = Inr True" "\<not> discoverFiles desk_session"
    "inputFiles desk_session = []" "Prompt_input desk_session = Inr ''the notes''"
    "useClaudeCode desk_session" "claude_IsAvailable desk_session"
    "outputPath desk_session = []" "saveOutput desk_session"
    "Now_stamp desk_session = ''2024-05-01 10:00:00''"
    "Now_date desk_session = ''2024-05-01''"
    "Prompt_save desk_session = Inr ''y''" "Select_location desk_session = Inr 3"
    "choose_savePath desk_session 3 = Some ''00_Inbox/notes''"
    "\<And>defaultFilename. Prompt_filename desk_session defaultFilename = Inr defaultFilename"
    "\<And>templates. Select_template desk_session templates = Inr 0"
    "ExecutePrompt ascii_only (claude desk_session) sales_content ''the notes'' =
       (''Hello'', None)"
    by (simp_all add: desk_session_def choose_savePath_def answering_ExecutePrompt
        TrimSpace_Hello)
  have f: "\<not> Stat_IsNotExist scenario_fs (Join scenario_fs [''.'', ''10_PromptTemplates''])"
    "ReadDir scenario_fs (Join scenario_fs [''.'', ''10_PromptTemplates'']) =
       Inr [plain_file ''Sales_Discovery.md'', plain_file ''notes.txt'']"
    "Join scenario_fs [Join scenario_fs [''.'', ''10_PromptTemplates''], ''Sales_Discovery.md''] =
       ''10_PromptTemplates/Sales_Discovery.md''"
    "Join scenario_fs [''.'', ''00_Inbox/notes'', ''Sales_Discovery_2024-05-01.md''] =
       ''00_Inbox/notes/Sales_Discovery_2024-05-01.md''"
    "\<And>path. MkdirAll scenario_fs path = None"
    "\<And>path data. WriteFile scenario_fs path data = None"
    by (simp_all add: scenario_fs_def templates_fs_def example_Join_def)
  have 1: "runPromptRun ascii_only scenario_fs to_file ''sales discovery'' =
     \<lparr>returned = None, executed = [(sales_content, ''the notes'')],
      disk = scenario_fs\<lparr>ReadFile := (ReadFile scenario_fs)(''out/answer.md'' :=
        Inr (''# Sales Discovery'' @ [newline, newline] @
             ''**Date:** 2024-05-01 10:00:00'' @ [newline] @
             ''**Prompt:** Sales Discovery'' @ [newline, newline] @
             ''## Input'' @ [newline, newline] @
             ''the notes'' @ [newline, newline] @
             ''## Response'' @ [newline, newline] @
             ''Hello'' @ [newline]))\<rparr>\<rparr>"
    using saved_layout [where F = scenario_fs and S = to_file and U = ascii_only
        and promptName = "''sales discovery''"
        and prompt = "\<lparr>Name = ''Sales Discovery'', FileName = ''Sales_Discovery.md'',
                       Path = ''10_PromptTemplates/Sales_Discovery.md'',
                       Description = ''Discover Needs''\<rparr>"
        and body = sales_content and input = "''the notes''" and response = "''Hello''",
        THEN conjunct2, THEN conjunct2, THEN conjunct2, THEN conjunct2, THEN conjunct2,
        THEN conjunct1]
    by (simp add: t f scenario_find scenario_read)
  have 2: "runPromptRun ascii_only scenario_fs desk_session ''sales discovery'' =
     \<lparr>returned = None, executed = [(sales_content, ''the notes'')],
      disk = scenario_fs\<lparr>ReadFile := (ReadFile scenario_fs)
        (''00_Inbox/notes/Sales_Discovery_2024-05-01.md'' :=
        Inr (''# Sales Discovery'' @ [newline, newline] @
             ''**Date:** 2024-05-01 10:00:00'' @ [newline] @
             ''**Prompt:** Sales Discovery'' @ [newline, newline] @
             ''## Input'' @ [newline, newline] @
             ''the notes'' @ [newline, newline] @
             ''## Response'' @ [newline, newline] @
             ''Hello'' @ [newline]))\<rparr>\<rparr>"
    using saved_layout [where F = scenario_fs and S = desk_session and U = ascii_only
        and promptName = "''sales discovery''"
        and prompt = "\<lparr>Name = ''Sales Discovery'', FileName = ''Sales_Discovery.md'',
                       Path = ''10_PromptTemplates/Sales_Discovery.md'',
                       Description = ''Discover Needs''\<rparr>"
        and body = sales_content and input = "''the notes''" and response = "''Hello''"
        and yes = "''y''" and locIdx = 3 and savePath = "''00_Inbox/notes''"
        and filename = "''Sales_Discovery_2024-05-01''",
        THEN conjunct2, THEN conjunct2, THEN conjunct2, THEN conjunct2, THEN conjunct2,
        THEN conjunct2, THEN conjunct1]
    by (simp add: d f scenario_find scenario_read string_defs)
  have 3: "runPrompt ascii_only scenario_fs desk_session =
     \<lparr>returned = None, executed = [(sales_content, ''the notes'')],
      disk = scenario_fs\<lparr>ReadFile := (ReadFile scenario_fs)
        (''00_Inbox/notes/Sales_Discovery_2024-05-01.md'' :=
        Inr (''# Sales Discovery 2024-05-01'' @ [newline, newline] @
             ''**Date:** 2024-05-01 10:00:00'' @ [newline] @
             ''**Prompt Template:** Sales_Discovery.md'' @ [newline] @
             ''**Model:** google/gemini-2.0-flash-exp:free'' @ [newline, newline] @
             ''## User Input'' @ [newline, newline] @
             ''the notes'' @ [newline, newline] @
             ''## Response'' @ [newline, newline] @
             ''Hello'' @ [newline]))\<rparr>\<rparr>"
    using saved_layout [where F = scenario_fs and S = desk_session and U = ascii_only
        and entries = "[plain_file ''Sales_Discovery.md'', plain_file ''notes.txt'']"
        and idx = 0 and selectedPrompt = "''Sales_Discovery.md''"
        and body = sales_content and input = "''the notes''" and response = "''Hello''"
        and yes = "''y''" and locIdx = 3 and savePath = "''00_Inbox/notes''"
        and filename = "''Sales_Discovery_2024-05-01''",
        THEN conjunct2, THEN conjunct2, THEN conjunct2, THEN conjunct2, THEN conjunct2,
        THEN conjunct2, THEN conjunct2, THEN conjunct1]
    by (simp add: d f scenario_read plain_file_def string_defs)
  show ?thesis
    by (intro conjI) (rule 1 2 3)+
qed

text \<open>
  The claim as it was written gives every save path the layout with the model identifier.
  In the scenario of the specification the \<open>run\<close> command with \<open>--output out/answer.md\<close>
  succeeds, and the file it leaves has neither a line for the model nor the headings of
  the other layout.
\<close>

theorem saved_layout_counterexample:
  "returned (runPromptRun ascii_only scenario_fs to_file ''sales discovery'') = None
   \<and> ReadFile (disk (runPromptRun ascii_only scenario_fs to_file ''sales discovery''))
       ''out/answer.md'' =
       Inr (''# Sales Discovery'' @ [newline, newline] @
            ''**Date:** 2024-05-01 10:00:00'' @ [newline] @
            ''**Prompt:** Sales Discovery'' @ [newline, newline] @
            ''## Input'' @ [newline, newline] @
            ''the notes'' @ [newline, newline] @
            ''## Response'' @ [newline, newline] @
            ''Hello'' @ [newline])
   \<and> \<not> Contains (projr (ReadFile (disk (runPromptRun ascii_only scenario_fs to_file
                                          ''sales discovery'')) ''out/answer.md'')) ''Model''"
proof -
  have g: "runPromptRun_gather ascii_only scenario_fs to_file ''sales discovery'' =
             Inr (\<lparr>Name = ''Sales Discovery'', FileName = ''Sales_Discovery.md'',
                   Path = ''10_PromptTemplates/Sales_Discovery.md'',
                   Description = ''Discover Needs''\<rparr>, sales_content, ''the notes'')"
    by (rule scenario_gather) (simp_all add: to_file_def desk_session_def)
  have x: "ExecutePrompt ascii_only (claude to_file) sales_content ''the notes'' =
             (''Hello'', None)"
    by (simp add: to_file_def desk_session_def answering_ExecutePrompt TrimSpace_Hello)
  have s: "useClaudeCode to_file" "claude_IsAvailable to_file"
    "outputPath to_file = ''out/answer.md''" "Now_stamp to_file = ''2024-05-01 10:00:00''"
    by (simp_all add: to_file_def desk_session_def)
  have w: "savePromptOutput scenario_fs to_file ''.'' ''Sales Discovery'' ''the notes'' ''Hello''
             ''out/answer.md'' =
           (None, scenario_fs\<lparr>ReadFile := (ReadFile scenario_fs)(''out/answer.md'' :=
              Inr (savePromptOutput_content to_file ''Sales Discovery'' ''the notes''
                     ''Hello''))\<rparr>)"
    by (rule savePromptOutput_written)
       (simp_all add: scenario_fs_def templates_fs_def)
  have run: "runPromptRun ascii_only scenario_fs to_file ''sales discovery'' =
          \<lparr>returned = None, executed = [(sales_content, ''the notes'')],
           disk = scenario_fs\<lparr>ReadFile := (ReadFile scenario_fs)(''out/answer.md'' :=
             Inr (savePromptOutput_content to_file ''Sales Discovery'' ''the notes''
                    ''Hello''))\<rparr>\<rparr>"
    by (simp add: runPromptRun_def g x s runPromptRun_save_def w)
  show ?thesis
    unfolding run
    by (simp add: savePromptOutput_content_def s HasPrefix_Cons)
qed

end
